theory Spec2Isabelle
  imports Complex_Main "HOL-Library.Sublist"
begin

section \<open>Data model\<close>

text \<open>
  Modelled from the spec: the detection collection. The code works on
  \<open>sv.Detections\<close> objects of the \<open>supervision\<close> library, whose declaration is
  not part of the repository. Following section 3 of the specification, a
  collection is an ordered sequence of detections, each with a bounding box
  \<open>(x_min, y_min, x_max, y_max)\<close>, a confidence, a class id, a class name, an
  optional mask and auxiliary fields. Coordinates are Python floats; they are
  idealised here as real numbers, so rounding is not modelled.

  The code reads the confidences and the class ids as attributes of the object
  and the class names as the entry \<open>class_name\<close> of its dictionary \<open>data\<close>. An
  object may lack each of the three: the attribute is then \<open>None\<close>, the entry
  absent, and the detections that iteration yields have \<open>None\<close> there. So the
  three fields of a detection are optional, and the object records which of the
  three columns it has.
\<close>

type_synonym addr = nat

record detection =
  x_min :: real
  y_min :: real
  x_max :: real
  y_max :: real
  mask :: "(real \<times> real) list list option"
  confidence :: "real option"
  class_id :: "int option"
  class_name :: "string option"
  aux :: "(string \<times> string) list"

record Detections =
  rows :: "detection list"
  has_confidence :: bool
  has_class_id :: bool
  has_class_name :: bool

text \<open>
  Python values that reach the operations. A \<open>VDetections\<close> value is a reference
  to an \<open>sv.Detections\<close> object in the store; \<open>VDetection\<close> is the element that
  iterating a collection yields.
\<close>

datatype pyval =
    VNone
  | VBool bool
  | VInt int
  | VFloat real
  | VStr string
  | VList "pyval list"
  | VSet "pyval list"
  | VImage nat nat
  | VDetection detection
  | VDetections addr

type_synonym params = "string \<rightharpoonup> pyval"

text \<open>
  The store holds the mutable objects the operations touch: the
  \<open>sv.Detections\<close> objects (each with the arrays it owns, as one cell) and the
  parameter dictionaries. An address is an index into the list of cells, so a
  newly allocated cell never coincides with an existing one. \<open>dets\<close> gives the
  detections of every object, address by address.
\<close>

record store =
  objects :: "Detections list"
  dicts :: "params list"

definition dets :: "store \<Rightarrow> detection list list" where
  "dets h = map rows (objects h)"

definition lookup_cell :: "'a list \<Rightarrow> addr \<Rightarrow> 'a option" where
  "lookup_cell cells a = (if a < length cells then Some (cells ! a) else None)"

definition alloc_dets :: "store \<Rightarrow> Detections \<Rightarrow> addr \<times> store" where
  "alloc_dets h detections = (length (objects h), h\<lparr>objects := objects h @ [detections]\<rparr>)"

definition alloc_dict :: "store \<Rightarrow> params \<Rightarrow> addr \<times> store" where
  "alloc_dict h m = (length (dicts h), h\<lparr>dicts := dicts h @ [m]\<rparr>)"

text \<open>
  Modelled from the spec: the enumeration \<open>DetectionsProperty\<close>, declared in
  \<open>entities/enums.py\<close>, which is not among the source files. Its members are the
  properties that section 4.1 requires, which are the keys of
  \<open>PROPERTIES_EXTRACTORS\<close> in \<open>base.py\<close>. Python does not enforce the annotation
  of the argument \<open>property_name\<close>, so the argument is either a member or some
  other key, given by its rendering.
\<close>

datatype DetectionsProperty =
  CONFIDENCE | CLASS_NAME | X_MIN | Y_MIN | X_MAX | Y_MAX | CLASS_ID | SIZE

datatype property_name = Property DetectionsProperty | NotAProperty string

text \<open>
  Errors raised by the code. \<open>InvalidInputTypeError\<close> carries its public message
  and its context, \<open>KeyError\<close> the key that was looked up: a member of the
  enumeration or another key, such as the string \<open>class_name\<close>.
  \<open>AttributeError\<close> is raised by \<open>None.tolist()\<close>, \<open>UFuncTypeError\<close> by numpy's
  in-place addition. \<open>NoSuchObject\<close> is not a Python exception: it is the model's
  answer to a reference that denotes no object of the store, which a Python
  program cannot build.
\<close>

datatype error =
    InvalidInputTypeError string string
  | KeyError property_name
  | AttributeError
  | UFuncTypeError
  | IndexError
  | ValueError
  | EvaluationEngineError string
  | NoSuchObject

text \<open>
  \<open>isinstance(value, sv.Detections)\<close>: the address of the object when the value
  is one, \<open>None\<close> otherwise.
\<close>

fun as_Detections :: "pyval \<Rightarrow> addr option" where
  "as_Detections (VDetections a) = Some a"
| "as_Detections _ = None"

text \<open>The rendering of \<open>type(value)\<close> inside an f-string.\<close>

fun type_str :: "pyval \<Rightarrow> string" where
  "type_str VNone = ''<class 'NoneType'>''"
| "type_str (VBool _) = ''<class 'bool'>''"
| "type_str (VInt _) = ''<class 'int'>''"
| "type_str (VFloat _) = ''<class 'float'>''"
| "type_str (VStr _) = ''<class 'str'>''"
| "type_str (VList _) = ''<class 'list'>''"
| "type_str (VSet _) = ''<class 'set'>''"
| "type_str (VImage _ _) = ''<class 'numpy.ndarray'>''"
| "type_str (VDetection _) = ''<class 'tuple'>''"
| "type_str (VDetections _) = ''<class 'supervision.detection.core.Detections'>''"

section \<open>Detection operations (\<open>operations/detections/base.py\<close>)\<close>

definition box_area :: "detection \<Rightarrow> real" where
  "box_area d = (y_max d - y_min d) * (x_max d - x_min d)"

text \<open>
  \<open>column.tolist()\<close> on a column of optional entries: an entry \<open>None\<close> stays
  \<open>None\<close>.
\<close>

definition tolist :: "('a \<Rightarrow> pyval) \<Rightarrow> 'a option list \<Rightarrow> pyval list" where
  "tolist f column = map (\<lambda>entry. case entry of None \<Rightarrow> VNone | Some x \<Rightarrow> f x) column"

text \<open>
  The extractors. \<open>detections.confidence\<close> and \<open>detections.class_id\<close> are
  \<open>None\<close> on an object without the column, so \<open>.tolist()\<close> raises
  \<open>AttributeError\<close>; \<open>detections.data["class_name"]\<close> raises \<open>KeyError\<close> on an
  object whose \<open>data\<close> has no such entry. The coordinates are always there.
\<close>

definition PROPERTIES_EXTRACTORS ::
  "(property_name \<times> (Detections \<Rightarrow> error + pyval list)) list" where
  "PROPERTIES_EXTRACTORS =
    [(Property CONFIDENCE, \<lambda>detections.
        if has_confidence detections
        then Inr (tolist VFloat (map confidence (rows detections)))
        else Inl AttributeError),
     (Property CLASS_NAME, \<lambda>detections.
        if has_class_name detections
        then Inr (tolist VStr (map class_name (rows detections)))
        else Inl (KeyError (NotAProperty ''class_name''))),
     (Property X_MIN, \<lambda>detections. Inr (map (\<lambda>d. VFloat (x_min d)) (rows detections))),
     (Property Y_MIN, \<lambda>detections. Inr (map (\<lambda>d. VFloat (y_min d)) (rows detections))),
     (Property X_MAX, \<lambda>detections. Inr (map (\<lambda>d. VFloat (x_max d)) (rows detections))),
     (Property Y_MAX, \<lambda>detections. Inr (map (\<lambda>d. VFloat (y_max d)) (rows detections))),
     (Property CLASS_ID, \<lambda>detections.
        if has_class_id detections
        then Inr (tolist VInt (map class_id (rows detections)))
        else Inl AttributeError),
     (Property SIZE, \<lambda>detections. Inr (map (\<lambda>d. VFloat (box_area d)) (rows detections)))]"

text \<open>
  \<open>safe_stringify\<close> is defined in \<open>operations/utils.py\<close>, which is not among the
  source files; every operation takes it as its first argument. The store is the
  second argument, and the result of an operation that allocates or writes comes
  with the store after the call.
\<close>

definition extract_detections_property ::
  "(pyval \<Rightarrow> string) \<Rightarrow> store \<Rightarrow> pyval \<Rightarrow> property_name \<Rightarrow> string \<Rightarrow> error + pyval list" where
  "extract_detections_property safe_stringify h detections property_name execution_context =
    (case as_Detections detections of
     None \<Rightarrow>
       let value_as_str = safe_stringify detections in
       Inl (InvalidInputTypeError
         (''Executing extract_detections_property(...) in context '' @ execution_context @
          '', expected sv.Detections object as value, got '' @ value_as_str @
          '' of type '' @ type_str detections)
         (''step_execution | roboflow_query_language_evaluation | '' @ execution_context))
   | Some a \<Rightarrow>
       (case lookup_cell (objects h) a of
          None \<Rightarrow> Inl NoSuchObject
        | Some object \<Rightarrow>
            (case map_of PROPERTIES_EXTRACTORS property_name of
               None \<Rightarrow> Inl (KeyError property_name)
             | Some extractor \<Rightarrow> extractor object)))"

text \<open>
  Modelled from the spec: \<open>DEFAULT_OPERAND_NAME\<close>, declared in
  \<open>entities/operations.py\<close>, which is not among the source files. It is the one
  reserved operand name that denotes the detection under test.
\<close>

definition DEFAULT_OPERAND_NAME :: string where
  "DEFAULT_OPERAND_NAME = ''_''"

definition set_item :: "store \<Rightarrow> addr \<Rightarrow> string \<Rightarrow> pyval \<Rightarrow> store" where
  "set_item h a k v = h\<lparr>dicts := (dicts h)[a := (dicts h ! a)(k \<mapsto> v)]\<rparr>"

text \<open>
  The loop of \<open>filter_detections\<close>. \<open>local_parameters\<close> is the address of the
  copy made before the loop; every iteration overwrites the reserved entry of that
  one dictionary and hands the dictionary to \<open>filtering_fun\<close>. The filtering
  function is the compiled statement: it reads the dictionary and returns a
  boolean or raises, and it changes nothing (operand resolution is free of side
  effects, section 4.3 of the specification). An exception of \<open>filtering_fun\<close>
  leaves the loop and the function. The function is only called on the address of
  an existing dictionary.
\<close>

fun filter_loop ::
  "store \<Rightarrow> addr \<Rightarrow> (params \<Rightarrow> error + bool) \<Rightarrow> detection list \<Rightarrow> bool list
    \<Rightarrow> (error + bool list) \<times> store" where
  "filter_loop h local_parameters filtering_fun [] result = (Inr result, h)"
| "filter_loop h local_parameters filtering_fun (detection # rest) result =
    (let h' = set_item h local_parameters DEFAULT_OPERAND_NAME (VDetection detection) in
     case filtering_fun (dicts h' ! local_parameters) of
       Inl e \<Rightarrow> (Inl e, h')
     | Inr should_stay \<Rightarrow>
         filter_loop h' local_parameters filtering_fun rest (result @ [should_stay]))"

text \<open>
  Indexing a collection with a list of booleans, \<open>detections[result]\<close>: a new
  object with the selected detections and the columns of the indexed one.
\<close>

definition mask_select :: "'a list \<Rightarrow> bool list \<Rightarrow> 'a list" where
  "mask_select xs bs = map fst (filter snd (zip xs bs))"

definition getitem_mask :: "Detections \<Rightarrow> bool list \<Rightarrow> Detections" where
  "getitem_mask detections result = detections\<lparr>rows := mask_select (rows detections) result\<rparr>"

definition filter_detections ::
  "(pyval \<Rightarrow> string) \<Rightarrow> store \<Rightarrow> pyval \<Rightarrow> (params \<Rightarrow> error + bool) \<Rightarrow> addr
    \<Rightarrow> (error + pyval) \<times> store" where
  "filter_detections safe_stringify h detections filtering_fun global_parameters =
    (case as_Detections detections of
     None \<Rightarrow>
       let value_as_str = safe_stringify detections in
       (Inl (InvalidInputTypeError
          (''Executing filter_detections(...), expected sv.Detections object as value, '' @
           ''got '' @ value_as_str @ '' of type '' @ type_str detections)
          ''step_execution | roboflow_query_language_evaluation''), h)
   | Some a \<Rightarrow>
       (case (lookup_cell (objects h) a,
              lookup_cell (dicts h) global_parameters) of
          (Some object, Some gp) \<Rightarrow>
            (let (local_parameters, h1) = alloc_dict h gp in
             case filter_loop h1 local_parameters filtering_fun (rows object) [] of
               (Inl e, h2) \<Rightarrow> (Inl e, h2)
             | (Inr result, h2) \<Rightarrow>
                 (let (selected, h3) = alloc_dets h2 (getitem_mask object result) in
                  (Inr (VDetections selected), h3)))
        | _ \<Rightarrow> (Inl NoSuchObject, h)))"

text \<open>
  \<open>deepcopy(value)\<close> allocates a new object with equal contents;
  \<open>detections_copy.xyxy += [a, b, c, d]\<close> adds the four numbers to every row of
  the coordinate array of the object at that address, in place.
\<close>

definition deepcopy :: "store \<Rightarrow> Detections \<Rightarrow> addr \<times> store" where
  "deepcopy h detections = alloc_dets h detections"

definition add_row :: "real \<times> real \<times> real \<times> real \<Rightarrow> detection \<Rightarrow> detection" where
  "add_row r d = (case r of (a, b, c, e) \<Rightarrow>
     d\<lparr>x_min := x_min d + a, y_min := y_min d + b, x_max := x_max d + c, y_max := y_max d + e\<rparr>)"

definition iadd_xyxy :: "store \<Rightarrow> addr \<Rightarrow> real \<times> real \<times> real \<times> real \<Rightarrow> store" where
  "iadd_xyxy h a r =
    h\<lparr>objects := (objects h)[a := (objects h ! a)\<lparr>rows := map (add_row r) (rows (objects h ! a))\<rparr>]\<rparr>"

definition offset_detections ::
  "(pyval \<Rightarrow> string) \<Rightarrow> store \<Rightarrow> pyval \<Rightarrow> int \<Rightarrow> int \<Rightarrow> (error + pyval) \<times> store" where
  "offset_detections safe_stringify h value offset_x offset_y =
    (case as_Detections value of
     None \<Rightarrow>
       let value_as_str = safe_stringify value in
       (Inl (InvalidInputTypeError
          (''Executing offset_detections(...), expected sv.Detections object as value, '' @
           ''got '' @ value_as_str @ '' of type '' @ type_str value)
          ''step_execution | roboflow_query_language_evaluation''), h)
   | Some a \<Rightarrow>
       (case lookup_cell (objects h) a of
          None \<Rightarrow> (Inl NoSuchObject, h)
        | Some object \<Rightarrow>
            (let (detections_copy, h1) = deepcopy h object;
                 h2 = iadd_xyxy h1 detections_copy
                        (- real_of_int offset_x / 2, - real_of_int offset_y / 2,
                         real_of_int offset_x / 2, real_of_int offset_y / 2)
             in (Inr (VDetections detections_copy), h2))))"

text \<open>
  In \<open>shift_detections\<close> the list added to the coordinates holds Python
  integers. Numpy turns it into an array of numbers when every integer lies
  between \<open>-2^63\<close> and \<open>2^64 - 1\<close>; otherwise the array holds objects and the
  in-place addition to an array of floats raises \<open>UFuncTypeError\<close>, after the copy
  was made.
\<close>

definition array_of_integers :: "int list \<Rightarrow> bool" where
  "array_of_integers xs = list_all (\<lambda>x. - (2 ^ 63) \<le> x \<and> x < 2 ^ 64) xs"

definition shift_detections ::
  "(pyval \<Rightarrow> string) \<Rightarrow> store \<Rightarrow> pyval \<Rightarrow> int \<Rightarrow> int \<Rightarrow> (error + pyval) \<times> store" where
  "shift_detections safe_stringify h value shift_x shift_y =
    (case as_Detections value of
     None \<Rightarrow>
       let value_as_str = safe_stringify value in
       (Inl (InvalidInputTypeError
          (''Executing shift_detections(...), expected sv.Detections object as value, '' @
           ''got '' @ value_as_str @ '' of type '' @ type_str value)
          ''step_execution | roboflow_query_language_evaluation''), h)
   | Some a \<Rightarrow>
       (case lookup_cell (objects h) a of
          None \<Rightarrow> (Inl NoSuchObject, h)
        | Some object \<Rightarrow>
            (let (detections_copy, h1) = deepcopy h object in
             if array_of_integers [shift_x, shift_y, shift_x, shift_y]
             then (Inr (VDetections detections_copy),
                   iadd_xyxy h1 detections_copy
                     (real_of_int shift_x, real_of_int shift_y,
                      real_of_int shift_x, real_of_int shift_y))
             else (Inl UFuncTypeError, h1))))"

section \<open>Segment Anything block (\<open>models/foundation/segment_anything/v1.py\<close>)\<close>

text \<open>
  A polygon is a list of points and a point an array of numbers, which the code
  reads at positions 0 and 1. A prediction of the model carries its mask, a list
  of polygons.
\<close>

type_synonym polygon = "real list list"

record Sam2SegmentationPrediction =
  pred_mask :: "polygon list"

record InstanceSegmentationPrediction =
  pred_x :: real
  pred_y :: real
  pred_width :: real
  pred_height :: real
  pred_points :: "(real \<times> real) list"
  pred_confidence :: real
  pred_class :: string
  pred_class_id :: int

record InstanceSegmentationInferenceResponse =
  predictions :: "InstanceSegmentationPrediction list"
  image_width :: nat
  image_height :: nat

text \<open>Reading a sequence at a non-negative position raises \<open>IndexError\<close> beyond its end.\<close>

definition getitem :: "'a list \<Rightarrow> nat \<Rightarrow> error + 'a" where
  "getitem xs i = (if i < length xs then Inr (xs ! i) else Inl IndexError)"

text \<open>\<open>np.min\<close> and \<open>np.max\<close> raise \<open>ValueError\<close> on an empty sequence.\<close>

fun np_min :: "real list \<Rightarrow> error + real" where
  "np_min [] = Inl ValueError"
| "np_min (x # xs) = Inr (fold min xs x)"

fun np_max :: "real list \<Rightarrow> error + real" where
  "np_max [] = Inl ValueError"
| "np_max (x # xs) = Inr (fold max xs x)"

text \<open>The comprehension \<open>[coord[i] for coord in polygon]\<close>.\<close>

fun coords_at :: "nat \<Rightarrow> polygon \<Rightarrow> error + real list" where
  "coords_at i [] = Inr []"
| "coords_at i (coord # rest) =
    (case getitem coord i of
       Inl e \<Rightarrow> Inl e
     | Inr c \<Rightarrow> (case coords_at i rest of Inl e \<Rightarrow> Inl e | Inr cs \<Rightarrow> Inr (c # cs)))"

text \<open>The comprehension \<open>[Point(x=point[0], y=point[1]) for point in polygon]\<close>.\<close>

fun points_of :: "polygon \<Rightarrow> error + (real \<times> real) list" where
  "points_of [] = Inr []"
| "points_of (point # rest) =
    (case getitem point 0 of
       Inl e \<Rightarrow> Inl e
     | Inr px \<Rightarrow>
         (case getitem point 1 of
            Inl e \<Rightarrow> Inl e
          | Inr py \<Rightarrow>
              (case points_of rest of Inl e \<Rightarrow> Inl e | Inr ps \<Rightarrow> Inr ((px, py) # ps))))"

text \<open>The rendering \<open>str(i)\<close> of a non-negative integer.\<close>

fun str_nat :: "nat \<Rightarrow> string" where
  "str_nat n =
    (if n < 10 then [char_of (48 + n)]
     else str_nat (n div 10) @ [char_of (48 + n mod 10)])"

declare str_nat.simps [simp del]

text \<open>The body of the loop over the polygons of one mask.\<close>

definition polygon_prediction ::
  "polygon \<Rightarrow> int list \<Rightarrow> string list \<Rightarrow> nat \<Rightarrow> error + InstanceSegmentationPrediction" where
  "polygon_prediction polygon prompt_class_ids prompt_class_names prediction_id =
    (case coords_at 0 polygon of Inl e \<Rightarrow> Inl e | Inr x_coords \<Rightarrow>
    (case coords_at 1 polygon of Inl e \<Rightarrow> Inl e | Inr y_coords \<Rightarrow>
    (case np_min x_coords of Inl e \<Rightarrow> Inl e | Inr min_x \<Rightarrow>
    (case np_min y_coords of Inl e \<Rightarrow> Inl e | Inr min_y \<Rightarrow>
    (case np_max x_coords of Inl e \<Rightarrow> Inl e | Inr max_x \<Rightarrow>
    (case np_max y_coords of Inl e \<Rightarrow> Inl e | Inr max_y \<Rightarrow>
    (let center_x = (min_x + max_x) / 2;
         center_y = (min_y + max_y) / 2 in
    (case points_of polygon of Inl e \<Rightarrow> Inl e | Inr points \<Rightarrow>
    (case getitem prompt_class_names prediction_id of Inl e \<Rightarrow> Inl e | Inr cls \<Rightarrow>
    (case getitem prompt_class_ids prediction_id of Inl e \<Rightarrow> Inl e | Inr cls_id \<Rightarrow>
     Inr \<lparr>pred_x = center_x, pred_y = center_y,
          pred_width = max_x - min_x, pred_height = max_y - min_y,
          pred_points = points, pred_confidence = 0.5,
          pred_class = cls, pred_class_id = cls_id\<rparr>))))))))))"

fun mask_loop ::
  "polygon list \<Rightarrow> int list \<Rightarrow> string list \<Rightarrow> nat \<Rightarrow> InstanceSegmentationPrediction list
    \<Rightarrow> error + InstanceSegmentationPrediction list" where
  "mask_loop [] prompt_class_ids prompt_class_names prediction_id acc = Inr acc"
| "mask_loop (polygon # rest) prompt_class_ids prompt_class_names prediction_id acc =
    (case polygon_prediction polygon prompt_class_ids prompt_class_names prediction_id of
       Inl e \<Rightarrow> Inl e
     | Inr p \<Rightarrow> mask_loop rest prompt_class_ids prompt_class_names prediction_id (acc @ [p]))"

fun predictions_loop ::
  "Sam2SegmentationPrediction list \<Rightarrow> int list \<Rightarrow> string list \<Rightarrow> nat
    \<Rightarrow> InstanceSegmentationPrediction list \<Rightarrow> error + InstanceSegmentationPrediction list" where
  "predictions_loop [] prompt_class_ids prompt_class_names prediction_id acc = Inr acc"
| "predictions_loop (pred # rest) prompt_class_ids prompt_class_names prediction_id acc =
    (case mask_loop (pred_mask pred) prompt_class_ids prompt_class_names prediction_id acc of
       Inl e \<Rightarrow> Inl e
     | Inr acc' \<Rightarrow>
         predictions_loop rest prompt_class_ids prompt_class_names (prediction_id + 1) acc')"

text \<open>
  The method \<open>_convert_sam2_segmentation_response_to_inference_instances_seg_response\<close>;
  the image is given by the shape \<open>(height, width)\<close> of its array.
\<close>

definition convert_sam2_segmentation_response_to_inference_instances_seg_response ::
  "Sam2SegmentationPrediction list \<Rightarrow> nat \<times> nat \<Rightarrow> int list \<Rightarrow> string list
    \<Rightarrow> error + InstanceSegmentationInferenceResponse" where
  "convert_sam2_segmentation_response_to_inference_instances_seg_response
      sam2_segmentation_predictions image_shape prompt_class_ids prompt_class_names =
    (let image_width' = snd image_shape;
         image_height' = fst image_shape;
         n = length sam2_segmentation_predictions;
         (ids, names) =
           (if length prompt_class_ids = 0
            then (map int [0..<n], map str_nat [0..<n])
            else (prompt_class_ids, prompt_class_names))
     in case predictions_loop sam2_segmentation_predictions ids names 0 [] of
          Inl e \<Rightarrow> Inl e
        | Inr preds \<Rightarrow>
            Inr \<lparr>predictions = preds, image_width = image_width', image_height = image_height'\<rparr>)"

section \<open>Statement evaluation\<close>

text \<open>
  Modelled from the spec: the evaluation engine (operand resolution, operations,
  comparators and statement trees), which is not among the source files. The
  datatypes follow section 3 of the specification, the functions sections 4.2 to
  4.5. An operation of property extraction carries the property identifier that
  the registry is asked for (section 4.1). \<open>UnknownOperation\<close> and
  \<open>UnknownComparator\<close> stand for a tag outside the fixed sets of operations and
  comparators (sections 4.4 and 7).
\<close>

datatype Operation =
    ExtractDetectionProperty property_name
  | ExtractImageProperty string
  | Multiply real
  | UnknownOperation string

datatype Operand =
    ContextOperand string "Operation list"
  | DetectionOperand "Operation list"

datatype Comparator =
    NumberLess | NumberLessEqual | NumberGreater | NumberGreaterEqual
  | NumberEqual | NumberNotEqual | InSequence | Equal
  | UnknownComparator string

datatype GroupOperator = AND | OR

datatype Statement =
    BinaryStatement Operand Comparator Operand
  | StatementGroup GroupOperator "Statement list"

text \<open>
  Modelled from the spec: the single-detection extraction of section 4.2, the
  scalar counterpart of the property registry. There is no value when the
  detection lacks the field.
\<close>

fun detection_property :: "DetectionsProperty \<Rightarrow> detection \<Rightarrow> pyval option" where
  "detection_property CONFIDENCE d = map_option VFloat (confidence d)"
| "detection_property CLASS_NAME d = map_option VStr (class_name d)"
| "detection_property X_MIN d = Some (VFloat (x_min d))"
| "detection_property Y_MIN d = Some (VFloat (y_min d))"
| "detection_property X_MAX d = Some (VFloat (x_max d))"
| "detection_property Y_MAX d = Some (VFloat (y_max d))"
| "detection_property CLASS_ID d = map_option VInt (class_id d)"
| "detection_property SIZE d = Some (VFloat (box_area d))"

text \<open>Modelled from the spec: the number a numeric value stands for.\<close>

fun num_of :: "pyval \<Rightarrow> real option" where
  "num_of (VInt i) = Some (real_of_int i)"
| "num_of (VFloat x) = Some x"
| "num_of _ = None"

text \<open>
  Modelled from the spec: the element-wise product of a sequence of numbers with a
  factor; there is none when an element is no number.
\<close>

fun multiply_each :: "real \<Rightarrow> pyval list \<Rightarrow> pyval list option" where
  "multiply_each factor [] = Some []"
| "multiply_each factor (x # xs) =
    (case num_of x of
       None \<Rightarrow> None
     | Some n \<Rightarrow>
         (case multiply_each factor xs of
            None \<Rightarrow> None
          | Some products \<Rightarrow> Some (VFloat (n * factor) # products)))"

text \<open>
  Modelled from the spec: one stage of the operation pipeline of section 4.2. A
  stage that receives a value outside its accepted type fails with
  \<open>InvalidInputTypeError\<close>, as does the extraction of a field that the detection
  lacks (section 4.1); an unknown image property is an evaluation error.
\<close>

definition apply_operation ::
  "(pyval \<Rightarrow> string) \<Rightarrow> store \<Rightarrow> Operation \<Rightarrow> pyval \<Rightarrow> error + pyval" where
  "apply_operation safe_stringify h operation v =
    (case operation of
       ExtractDetectionProperty property_name \<Rightarrow>
         (case v of
            VDetection d \<Rightarrow>
              (case property_name of
                 Property p \<Rightarrow>
                   (case detection_property p d of
                      Some x \<Rightarrow> Inr x
                    | None \<Rightarrow>
                        Inl (InvalidInputTypeError
                          (''Executing ExtractDetectionProperty, the detection lacks the field, got '' @
                           safe_stringify v @ '' of type '' @ type_str v)
                          ''step_execution | roboflow_query_language_evaluation''))
               | NotAProperty key \<Rightarrow> Inl (KeyError property_name))
          | _ \<Rightarrow>
             (case extract_detections_property safe_stringify h v property_name
                     ''ExtractDetectionProperty'' of
                Inl e \<Rightarrow> Inl e
              | Inr vs \<Rightarrow> Inr (VList vs)))
     | UnknownOperation tag \<Rightarrow> Inl (EvaluationEngineError (''unknown operation '' @ tag))
     | ExtractImageProperty name \<Rightarrow>
         (case v of
            VImage w ht \<Rightarrow>
              (if name = ''size'' then Inr (VInt (int (w * ht)))
               else Inl (EvaluationEngineError (''unknown image property '' @ name)))
          | _ \<Rightarrow>
              Inl (InvalidInputTypeError
                (''Executing ExtractImageProperty, expected image as value, got '' @
                 safe_stringify v @ '' of type '' @ type_str v)
                ''step_execution | roboflow_query_language_evaluation''))
     | Multiply factor \<Rightarrow>
         (case v of
            VList vs \<Rightarrow>
              (case multiply_each factor vs of
                 Some products \<Rightarrow> Inr (VList products)
               | None \<Rightarrow>
                   Inl (InvalidInputTypeError
                     (''Executing Multiply, expected number as value, got '' @
                      safe_stringify v @ '' of type '' @ type_str v)
                     ''step_execution | roboflow_query_language_evaluation''))
          | _ \<Rightarrow>
              (case num_of v of
                 Some x \<Rightarrow> Inr (VFloat (x * factor))
               | None \<Rightarrow>
                   Inl (InvalidInputTypeError
                     (''Executing Multiply, expected number as value, got '' @
                      safe_stringify v @ '' of type '' @ type_str v)
                     ''step_execution | roboflow_query_language_evaluation''))))"

text \<open>
  Modelled from the spec: the pipeline applies its stages left to right, the
  output of one stage being the input of the next.
\<close>

fun apply_operations ::
  "(pyval \<Rightarrow> string) \<Rightarrow> store \<Rightarrow> Operation list \<Rightarrow> pyval \<Rightarrow> error + pyval" where
  "apply_operations safe_stringify h [] v = Inr v"
| "apply_operations safe_stringify h (operation # rest) v =
    (case apply_operation safe_stringify h operation v of
       Inl e \<Rightarrow> Inl e
     | Inr v' \<Rightarrow> apply_operations safe_stringify h rest v')"

text \<open>
  Modelled from the spec: the operand resolver of section 4.3. The base value is
  the detection bound in the context, or the entry of the context under the
  operand's name; an absent name is an evaluation error.
\<close>

definition operand_name :: "Operand \<Rightarrow> string" where
  "operand_name operand =
    (case operand of ContextOperand name _ \<Rightarrow> name | DetectionOperand _ \<Rightarrow> DEFAULT_OPERAND_NAME)"

definition operand_operations :: "Operand \<Rightarrow> Operation list" where
  "operand_operations operand =
    (case operand of ContextOperand _ ops \<Rightarrow> ops | DetectionOperand ops \<Rightarrow> ops)"

definition resolve :: "(pyval \<Rightarrow> string) \<Rightarrow> store \<Rightarrow> Operand \<Rightarrow> params \<Rightarrow> error + pyval" where
  "resolve safe_stringify h operand context =
    (case context (operand_name operand) of
       None \<Rightarrow> Inl (EvaluationEngineError (''missing operand '' @ operand_name operand))
     | Some v \<Rightarrow> apply_operations safe_stringify h (operand_operations operand) v)"

text \<open>
  Modelled from the spec: a numeric comparator of section 4.4, which fails on a
  side that is no number.
\<close>

definition compare_numbers :: "(real \<Rightarrow> real \<Rightarrow> bool) \<Rightarrow> pyval \<Rightarrow> pyval \<Rightarrow> error + bool" where
  "compare_numbers rel l r =
    (case (num_of l, num_of r) of
       (Some a, Some b) \<Rightarrow> Inr (rel a b)
     | _ \<Rightarrow> Inl (InvalidInputTypeError ''expected numbers as operands of a numeric comparator''
               ''step_execution | roboflow_query_language_evaluation''))"

text \<open>
  Modelled from the spec: the comparators of section 4.4. Membership fails on a
  right side that is no collection, equality is value equality (sets compared as
  sets).
\<close>

definition compare_values :: "Comparator \<Rightarrow> pyval \<Rightarrow> pyval \<Rightarrow> error + bool" where
  "compare_values comparator l r =
    (case comparator of
       NumberLess \<Rightarrow> compare_numbers (<) l r
     | NumberLessEqual \<Rightarrow> compare_numbers (\<le>) l r
     | NumberGreater \<Rightarrow> compare_numbers (>) l r
     | NumberGreaterEqual \<Rightarrow> compare_numbers (\<ge>) l r
     | NumberEqual \<Rightarrow> compare_numbers (=) l r
     | NumberNotEqual \<Rightarrow> compare_numbers (\<noteq>) l r
     | InSequence \<Rightarrow>
         (case r of
            VList vs \<Rightarrow> Inr (l \<in> set vs)
          | VSet vs \<Rightarrow> Inr (l \<in> set vs)
          | _ \<Rightarrow> Inl (InvalidInputTypeError ''expected a collection as right operand of in''
                    ''step_execution | roboflow_query_language_evaluation''))
     | Equal \<Rightarrow>
         (case (l, r) of
            (VSet xs, VSet ys) \<Rightarrow> Inr (set xs = set ys)
          | _ \<Rightarrow> Inr (l = r))
     | UnknownComparator tag \<Rightarrow> Inl (EvaluationEngineError (''unknown comparator '' @ tag)))"

text \<open>
  Modelled from the spec: the statement evaluator of section 4.5. A binary
  statement resolves its left and its right operand and applies the comparator. A
  group evaluates all its children in order, without short-circuiting; \<open>AND\<close>
  holds iff every child holds, \<open>OR\<close> iff at least one does. A failure of a
  child is the failure of the group.
\<close>

fun evaluate ::
  "(pyval \<Rightarrow> string) \<Rightarrow> store \<Rightarrow> Statement \<Rightarrow> params \<Rightarrow> error + bool"
and evaluate_all ::
  "(pyval \<Rightarrow> string) \<Rightarrow> store \<Rightarrow> Statement list \<Rightarrow> params \<Rightarrow> error + bool list" where
  "evaluate safe_stringify h (BinaryStatement left comparator right) context =
    (case resolve safe_stringify h left context of
       Inl e \<Rightarrow> Inl e
     | Inr l \<Rightarrow>
         (case resolve safe_stringify h right context of
            Inl e \<Rightarrow> Inl e
          | Inr r \<Rightarrow> compare_values comparator l r))"
| "evaluate safe_stringify h (StatementGroup operator statements) context =
    (case evaluate_all safe_stringify h statements context of
       Inl e \<Rightarrow> Inl e
     | Inr results \<Rightarrow>
         Inr (case operator of
                AND \<Rightarrow> foldr (\<and>) results True
              | OR \<Rightarrow> foldr (\<or>) results False))"
| "evaluate_all safe_stringify h [] context = Inr []"
| "evaluate_all safe_stringify h (statement # rest) context =
    (case evaluate safe_stringify h statement context of
       Inl e \<Rightarrow> Inl e
     | Inr b \<Rightarrow>
         (case evaluate_all safe_stringify h rest context of
            Inl e \<Rightarrow> Inl e
          | Inr bs \<Rightarrow> Inr (b # bs)))"

text \<open>
  Modelled from the spec: the compilation of a statement tree. Sections 4.4 and 7
  let it detect the failures that need no data, a malformed tree and unknown tags
  of comparators and operations, before any detection is processed; a tree without
  them compiles to the function that evaluates it. Property identifiers are asked
  of the registry when an extraction runs (section 4.1), so compilation does not
  look at them.
\<close>

fun statement_comparators :: "Statement \<Rightarrow> Comparator list" where
  "statement_comparators (BinaryStatement left comparator right) = [comparator]"
| "statement_comparators (StatementGroup operator statements) =
    concat (map statement_comparators statements)"

fun statement_operations :: "Statement \<Rightarrow> Operation list" where
  "statement_operations (BinaryStatement left comparator right) =
    operand_operations left @ operand_operations right"
| "statement_operations (StatementGroup operator statements) =
    concat (map statement_operations statements)"

fun known_comparator :: "Comparator \<Rightarrow> bool" where
  "known_comparator (UnknownComparator tag) = False"
| "known_comparator _ = True"

fun known_operation :: "Operation \<Rightarrow> bool" where
  "known_operation (UnknownOperation tag) = False"
| "known_operation _ = True"

definition compile_statement ::
  "(pyval \<Rightarrow> string) \<Rightarrow> Statement \<Rightarrow> error + (store \<Rightarrow> params \<Rightarrow> error + bool)" where
  "compile_statement safe_stringify statement =
    (if \<not> list_all known_comparator (statement_comparators statement)
     then Inl (EvaluationEngineError ''unknown comparator'')
     else if \<not> list_all known_operation (statement_operations statement)
     then Inl (EvaluationEngineError ''unknown operation'')
     else Inr (\<lambda>h context. evaluate safe_stringify h statement context))"

section \<open>Notions used to state the properties\<close>

text \<open>The caller's mapping with one detection bound under the reserved name.\<close>

definition bound_context :: "params \<Rightarrow> detection \<Rightarrow> params" where
  "bound_context gp d = gp(DEFAULT_OPERAND_NAME \<mapsto> VDetection d)"

text \<open>
  The filtering function applied to every detection of a collection in order,
  each time on the caller's mapping with that detection bound; the first failure
  ends the run.
\<close>

fun evaluations ::
  "(params \<Rightarrow> error + bool) \<Rightarrow> params \<Rightarrow> detection list \<Rightarrow> error + bool list" where
  "evaluations f gp [] = Inr []"
| "evaluations f gp (d # ds) =
    (case f (bound_context gp d) of
       Inl e \<Rightarrow> Inl e
     | Inr b \<Rightarrow> (case evaluations f gp ds of Inl e \<Rightarrow> Inl e | Inr bs \<Rightarrow> Inr (b # bs)))"

text \<open>The operands that occur in a statement tree.\<close>

fun statement_operands :: "Statement \<Rightarrow> Operand list" where
  "statement_operands (BinaryStatement left comparator right) = [left, right]"
| "statement_operands (StatementGroup operator statements) =
    concat (map statement_operands statements)"

text \<open>
  The columns of an object that a property reads: the three optional ones, or the
  coordinates, which every object has. The entry of a detection in the list that
  extraction returns, and the error that extraction raises on an object without
  the column.
\<close>

fun carries :: "Detections \<Rightarrow> DetectionsProperty \<Rightarrow> bool" where
  "carries detections CONFIDENCE = has_confidence detections"
| "carries detections CLASS_ID = has_class_id detections"
| "carries detections CLASS_NAME = has_class_name detections"
| "carries detections _ = True"

fun column_entry :: "DetectionsProperty \<Rightarrow> detection \<Rightarrow> pyval" where
  "column_entry CONFIDENCE d = (case confidence d of None \<Rightarrow> VNone | Some c \<Rightarrow> VFloat c)"
| "column_entry CLASS_NAME d = (case class_name d of None \<Rightarrow> VNone | Some n \<Rightarrow> VStr n)"
| "column_entry X_MIN d = VFloat (x_min d)"
| "column_entry Y_MIN d = VFloat (y_min d)"
| "column_entry X_MAX d = VFloat (x_max d)"
| "column_entry Y_MAX d = VFloat (y_max d)"
| "column_entry CLASS_ID d = (case class_id d of None \<Rightarrow> VNone | Some i \<Rightarrow> VInt i)"
| "column_entry SIZE d = VFloat (box_area d)"

fun missing_column :: "DetectionsProperty \<Rightarrow> error" where
  "missing_column CLASS_NAME = KeyError (NotAProperty ''class_name'')"
| "missing_column _ = AttributeError"

text \<open>The order of the corners of a box.\<close>

definition valid_box :: "detection \<Rightarrow> bool" where
  "valid_box d = (x_min d \<le> x_max d \<and> y_min d \<le> y_max d)"

subsection \<open>Concrete inputs\<close>

definition person :: detection where
  "person = \<lparr>x_min = 100, y_min = 100, x_max = 200, y_max = 200, mask = None,
     confidence = Some 0.9, class_id = Some 0, class_name = Some ''person'', aux = []\<rparr>"

definition car :: detection where
  "car = \<lparr>x_min = 0, y_min = 0, x_max = 10, y_max = 5, mask = None,
     confidence = Some 0.5, class_id = Some 1, class_name = Some ''car'', aux = []\<rparr>"

text \<open>
  A store with one collection of two detections, an empty collection, and two
  parameter mappings: one with the allowed classes and the image, one empty.
  Both collections have the three optional columns.
\<close>

definition example_store :: store where
  "example_store =
    \<lparr>objects =
       [\<lparr>rows = [person, car], has_confidence = True, has_class_id = True,
          has_class_name = True\<rparr>,
        \<lparr>rows = [], has_confidence = True, has_class_id = True, has_class_name = True\<rparr>],
     dicts = [[''classes'' \<mapsto> VSet [VStr ''person''], ''image'' \<mapsto> VImage 500 200],
              Map.empty]\<rparr>"

text \<open>
  The object that \<open>sv.Detections.empty()\<close> builds: no detections, empty arrays of
  confidences and class ids, and an empty dictionary \<open>data\<close>.
\<close>

definition empty_detections :: Detections where
  "empty_detections =
    \<lparr>rows = [], has_confidence = True, has_class_id = True, has_class_name = False\<rparr>"

definition empty_store :: store where
  "empty_store = \<lparr>objects = [empty_detections], dicts = []\<rparr>"

definition no_stringify :: "pyval \<Rightarrow> string" where
  "no_stringify v = ''<not stringify-able value>''"

text \<open>
  The filter of the specification's example: the class name is among the allowed
  classes and the box area is at least 2 percent of the image area.
\<close>

definition class_statement :: Statement where
  "class_statement =
    BinaryStatement (DetectionOperand [ExtractDetectionProperty (Property CLASS_NAME)]) InSequence
      (ContextOperand ''classes'' [])"

definition size_statement :: Statement where
  "size_statement =
    BinaryStatement (DetectionOperand [ExtractDetectionProperty (Property SIZE)]) NumberGreaterEqual
      (ContextOperand ''image'' [ExtractImageProperty ''size'', Multiply 0.02])"

definition example_statement :: Statement where
  "example_statement = StatementGroup AND [class_statement, size_statement]"

section \<open>The store and the filter loop\<close>

lemma dets_length: "length (dets h) = length (objects h)"
  by (simp add: dets_def)

lemma dets_nth: "a < length (objects h) \<Longrightarrow> dets h ! a = rows (objects h ! a)"
  by (simp add: dets_def)

lemma dets_objects_update [simp]: "dets (h\<lparr>objects := os\<rparr>) = map rows os"
  by (simp add: dets_def)

lemma dets_dicts_update [simp]: "dets (h\<lparr>dicts := ms\<rparr>) = dets h"
  by (simp add: dets_def)

lemma example_store_dets: "dets example_store = [[person, car], []]"
  by (simp add: example_store_def dets_def)

lemma set_item_objects [simp]: "objects (set_item h l k v) = objects h"
  by (simp add: set_item_def)

lemma set_item_dets [simp]: "dets (set_item h l k v) = dets h"
  by (simp add: set_item_def)

lemma set_item_length [simp]: "length (dicts (set_item h l k v)) = length (dicts h)"
  by (simp add: set_item_def)

lemma set_item_same: "l < length (dicts h) \<Longrightarrow> dicts (set_item h l k v) ! l = (dicts h ! l)(k \<mapsto> v)"
  by (simp add: set_item_def)

lemma set_item_other: "b \<noteq> l \<Longrightarrow> dicts (set_item h l k v) ! b = dicts h ! b"
  by (simp add: set_item_def)

lemma filter_loop_fst:
  assumes "l < length (dicts h)"
    and "(dicts h ! l)(DEFAULT_OPERAND_NAME := None) = gp(DEFAULT_OPERAND_NAME := None)"
  shows "fst (filter_loop h l f ds acc) =
    (case evaluations f gp ds of Inl e \<Rightarrow> Inl e | Inr bs \<Rightarrow> Inr (acc @ bs))"
  using assms
proof (induction ds arbitrary: h acc)
  case Nil
  then show ?case by simp
next
  case (Cons d ds)
  let ?h = "set_item h l DEFAULT_OPERAND_NAME (VDetection d)"
  have ctx: "dicts ?h ! l = bound_context gp d"
  proof -
    have "dicts ?h ! l = (dicts h ! l)(DEFAULT_OPERAND_NAME \<mapsto> VDetection d)"
      using Cons.prems(1) by (rule set_item_same)
    also have "\<dots> = ((dicts h ! l)(DEFAULT_OPERAND_NAME := None))(DEFAULT_OPERAND_NAME \<mapsto> VDetection d)"
      by simp
    also have "\<dots> = (gp(DEFAULT_OPERAND_NAME := None))(DEFAULT_OPERAND_NAME \<mapsto> VDetection d)"
      by (simp only: Cons.prems(2))
    also have "\<dots> = bound_context gp d"
      by (simp add: bound_context_def)
    finally show ?thesis .
  qed
  have l': "l < length (dicts ?h)" using Cons.prems(1) by simp
  have inv': "(dicts ?h ! l)(DEFAULT_OPERAND_NAME := None) = gp(DEFAULT_OPERAND_NAME := None)"
    by (simp add: ctx bound_context_def)
  show ?case
  proof (cases "f (bound_context gp d)")
    case (Inl e)
    then show ?thesis by (simp add: ctx Let_def)
  next
    case (Inr b)
    have "fst (filter_loop h l f (d # ds) acc) = fst (filter_loop ?h l f ds (acc @ [b]))"
      by (simp add: ctx Inr Let_def)
    also have "\<dots> = (case evaluations f gp ds of Inl e \<Rightarrow> Inl e | Inr bs \<Rightarrow> Inr ((acc @ [b]) @ bs))"
      using Cons.IH [OF l' inv'] .
    finally show ?thesis by (simp add: Inr split: sum.splits)
  qed
qed

lemma filter_loop_frame:
  "objects (snd (filter_loop h l f ds acc)) = objects h \<and>
   length (dicts (snd (filter_loop h l f ds acc))) = length (dicts h) \<and>
   (\<forall>b. b \<noteq> l \<longrightarrow> dicts (snd (filter_loop h l f ds acc)) ! b = dicts h ! b)"
proof (induction ds arbitrary: h acc)
  case Nil
  then show ?case by simp
next
  case (Cons d ds)
  let ?h = "set_item h l DEFAULT_OPERAND_NAME (VDetection d)"
  show ?case
  proof (cases "f (dicts ?h ! l)")
    case (Inl e)
    then show ?thesis by (simp add: Let_def set_item_other)
  next
    case (Inr b)
    then have "snd (filter_loop h l f (d # ds) acc) = snd (filter_loop ?h l f ds (acc @ [b]))"
      by (simp add: Let_def)
    then show ?thesis using Cons.IH [of ?h "acc @ [b]"] by (simp add: set_item_other)
  qed
qed

lemma evaluations_Inr:
  "(\<forall>d\<in>set ds. \<exists>b. f (bound_context gp d) = Inr b) \<Longrightarrow>
   evaluations f gp ds = Inr (map (\<lambda>d. f (bound_context gp d) = Inr True) ds)"
  by (induction ds) auto

lemma evaluations_Inl:
  "(\<exists>d\<in>set ds. isl (f (bound_context gp d))) \<Longrightarrow>
   \<exists>e. evaluations f gp ds = Inl e \<and> (\<exists>d\<in>set ds. f (bound_context gp d) = Inl e)"
proof (induction ds)
  case Nil
  then show ?case by simp
next
  case (Cons d ds)
  show ?case
  proof (cases "f (bound_context gp d)")
    case (Inl e)
    show ?thesis
    proof (intro exI conjI bexI)
      show "evaluations f gp (d # ds) = Inl e" by (simp add: Inl)
      show "f (bound_context gp d) = Inl e" by (rule Inl)
      show "d \<in> set (d # ds)" by simp
    qed
  next
    case (Inr b)
    with Cons.prems have "\<exists>d\<in>set ds. isl (f (bound_context gp d))"
      by auto
    from Cons.IH [OF this] obtain e where
      "evaluations f gp ds = Inl e" "\<exists>d\<in>set ds. f (bound_context gp d) = Inl e"
      by blast
    then obtain d' where d': "d' \<in> set ds" "f (bound_context gp d') = Inl e"
      by blast
    show ?thesis
    proof (intro exI conjI bexI)
      show "evaluations f gp (d # ds) = Inl e" by (simp add: Inr \<open>evaluations f gp ds = Inl e\<close>)
      show "f (bound_context gp d') = Inl e" by (rule d'(2))
      show "d' \<in> set (d # ds)" using d'(1) by simp
    qed
  qed
qed

lemma evaluations_cong:
  "(\<forall>d\<in>set ds. f' (bound_context gp d) = f (bound_context gp d)) \<Longrightarrow>
   evaluations f' gp ds = evaluations f gp ds"
  by (induction ds) (auto split: sum.splits)

lemma mask_select_map: "mask_select xs (map P xs) = filter P xs"
  by (induction xs) (auto simp: mask_select_def)


lemma alloc_dict_simps [simp]: "alloc_dict h m = (length (dicts h), h\<lparr>dicts := dicts h @ [m]\<rparr>)"
  by (simp add: alloc_dict_def)

lemma filter_detections_unfold:
  assumes "a < length (dets h)" and "g < length (dicts h)"
  shows "filter_detections ss h (VDetections a) f g =
    (case filter_loop (h\<lparr>dicts := dicts h @ [dicts h ! g]\<rparr>) (length (dicts h)) f (dets h ! a) [] of
       (Inl e, h2) \<Rightarrow> (Inl e, h2)
     | (Inr result, h2) \<Rightarrow>
         (Inr (VDetections (length (objects h2))),
          h2\<lparr>objects := objects h2 @ [getitem_mask (objects h ! a) result]\<rparr>))"
  using assms
  by (simp add: filter_detections_def lookup_cell_def alloc_dets_def dets_length dets_nth
      split: prod.splits sum.splits)

lemma filter_detections_ok:
  assumes "a < length (dets h)" and "g < length (dicts h)"
    and "evaluations f (dicts h ! g) (dets h ! a) = Inr bs"
  shows "fst (filter_detections ss h (VDetections a) f g) = Inr (VDetections (length (dets h)))"
    and "dets (snd (filter_detections ss h (VDetections a) f g)) = dets h @ [mask_select (dets h ! a) bs]"
    and "\<forall>b<length (dicts h). dicts (snd (filter_detections ss h (VDetections a) f g)) ! b = dicts h ! b"
    and "length (dicts h) \<le> length (dicts (snd (filter_detections ss h (VDetections a) f g)))"
    and "objects (snd (filter_detections ss h (VDetections a) f g)) =
         objects h @ [getitem_mask (objects h ! a) bs]"
proof -
  let ?h1 = "h\<lparr>dicts := dicts h @ [dicts h ! g]\<rparr>"
  let ?l = "length (dicts h)"
  let ?L = "filter_loop ?h1 ?l f (dets h ! a) []"
  have l: "?l < length (dicts ?h1)" by simp
  have inv: "(dicts ?h1 ! ?l)(DEFAULT_OPERAND_NAME := None) = (dicts h ! g)(DEFAULT_OPERAND_NAME := None)"
    by simp
  have 1: "fst ?L = Inr bs"
    using filter_loop_fst [OF l inv, of f "dets h ! a" "[]"] assms(3) by simp
  have 2: "objects (snd ?L) = objects h"
    and 3: "\<forall>b. b \<noteq> ?l \<longrightarrow> dicts (snd ?L) ! b = dicts ?h1 ! b"
    and 4: "length (dicts (snd ?L)) = Suc (length (dicts h))"
    using filter_loop_frame [of ?h1 ?l f "dets h ! a" "[]"] by simp_all
  obtain h2 where L: "?L = (Inr bs, h2)" using 1 by (cases ?L) simp
  have F: "filter_detections ss h (VDetections a) f g =
      (Inr (VDetections (length (objects h2))),
       h2\<lparr>objects := objects h2 @ [getitem_mask (objects h ! a) bs]\<rparr>)"
    by (simp add: filter_detections_unfold [OF assms(1,2)] L)
  have h2: "objects h2 = objects h" using 2 L by simp
  have a: "a < length (objects h)" using assms(1) by (simp add: dets_length)
  show "fst (filter_detections ss h (VDetections a) f g) = Inr (VDetections (length (dets h)))"
    by (simp add: F h2 dets_length)
  show "objects (snd (filter_detections ss h (VDetections a) f g)) =
         objects h @ [getitem_mask (objects h ! a) bs]"
    by (simp add: F h2)
  show "dets (snd (filter_detections ss h (VDetections a) f g)) = dets h @ [mask_select (dets h ! a) bs]"
    using a by (simp add: F h2 getitem_mask_def dets_def)
  show "\<forall>b<length (dicts h). dicts (snd (filter_detections ss h (VDetections a) f g)) ! b = dicts h ! b"
    using 3 L by (simp add: F nth_append)
  show "length (dicts h) \<le> length (dicts (snd (filter_detections ss h (VDetections a) f g)))"
    using 4 L by (simp add: F)
qed

lemma filter_detections_err:
  assumes "a < length (dets h)" and "g < length (dicts h)"
    and "evaluations f (dicts h ! g) (dets h ! a) = Inl e"
  shows "fst (filter_detections ss h (VDetections a) f g) = Inl e"
    and "dets (snd (filter_detections ss h (VDetections a) f g)) = dets h"
    and "\<forall>b<length (dicts h). dicts (snd (filter_detections ss h (VDetections a) f g)) ! b = dicts h ! b"
    and "length (dicts h) \<le> length (dicts (snd (filter_detections ss h (VDetections a) f g)))"
    and "objects (snd (filter_detections ss h (VDetections a) f g)) = objects h"
proof -
  let ?h1 = "h\<lparr>dicts := dicts h @ [dicts h ! g]\<rparr>"
  let ?l = "length (dicts h)"
  let ?L = "filter_loop ?h1 ?l f (dets h ! a) []"
  have l: "?l < length (dicts ?h1)" by simp
  have inv: "(dicts ?h1 ! ?l)(DEFAULT_OPERAND_NAME := None) = (dicts h ! g)(DEFAULT_OPERAND_NAME := None)"
    by simp
  have 1: "fst ?L = Inl e"
    using filter_loop_fst [OF l inv, of f "dets h ! a" "[]"] assms(3) by simp
  have 2: "objects (snd ?L) = objects h"
    and 3: "\<forall>b. b \<noteq> ?l \<longrightarrow> dicts (snd ?L) ! b = dicts ?h1 ! b"
    and 4: "length (dicts (snd ?L)) = Suc (length (dicts h))"
    using filter_loop_frame [of ?h1 ?l f "dets h ! a" "[]"] by simp_all
  obtain h2 where L: "?L = (Inl e, h2)" using 1 by (cases ?L) simp
  have F: "filter_detections ss h (VDetections a) f g = (Inl e, h2)"
    by (simp add: filter_detections_unfold [OF assms(1,2)] L)
  have h2: "objects h2 = objects h" using 2 L by simp
  show "fst (filter_detections ss h (VDetections a) f g) = Inl e"
    by (simp add: F)
  show "objects (snd (filter_detections ss h (VDetections a) f g)) = objects h"
    by (simp add: F h2)
  show "dets (snd (filter_detections ss h (VDetections a) f g)) = dets h"
    by (simp add: F h2 dets_def)
  show "\<forall>b<length (dicts h). dicts (snd (filter_detections ss h (VDetections a) f g)) ! b = dicts h ! b"
    using 3 L by (simp add: F nth_append)
  show "length (dicts h) \<le> length (dicts (snd (filter_detections ss h (VDetections a) f g)))"
    using 4 L by (simp add: F)
qed

lemma transform_unfold:
  assumes "a < length (dets h)"
  shows "offset_detections ss h (VDetections a) offset_x offset_y =
           (Inr (VDetections (length (dets h))),
            h\<lparr>objects := objects h @
               [(objects h ! a)\<lparr>rows :=
                  map (add_row (- real_of_int offset_x / 2, - real_of_int offset_y / 2,
                                real_of_int offset_x / 2, real_of_int offset_y / 2))
                    (dets h ! a)\<rparr>]\<rparr>)"
    and "array_of_integers [shift_x, shift_y, shift_x, shift_y] \<Longrightarrow>
         shift_detections ss h (VDetections a) shift_x shift_y =
           (Inr (VDetections (length (dets h))),
            h\<lparr>objects := objects h @
               [(objects h ! a)\<lparr>rows :=
                  map (add_row (real_of_int shift_x, real_of_int shift_y,
                                real_of_int shift_x, real_of_int shift_y))
                    (dets h ! a)\<rparr>]\<rparr>)"
  using assms
  by (simp_all add: offset_detections_def shift_detections_def lookup_cell_def deepcopy_def
      alloc_dets_def iadd_xyxy_def dets_length dets_nth)

subsection \<open>The specification's example, evaluated\<close>

lemma class_statement_person:
  "evaluate no_stringify example_store class_statement
     (bound_context (dicts example_store ! 0) person) = Inr True"
  by (simp add: class_statement_def example_store_def bound_context_def resolve_def
      operand_name_def operand_operations_def DEFAULT_OPERAND_NAME_def apply_operation_def
      compare_values_def person_def)

lemma size_statement_person:
  "evaluate no_stringify example_store size_statement
     (bound_context (dicts example_store ! 0) person) = Inr True"
  by (simp add: size_statement_def example_store_def bound_context_def resolve_def
      operand_name_def operand_operations_def DEFAULT_OPERAND_NAME_def apply_operation_def
      compare_values_def compare_numbers_def person_def box_area_def)

lemma class_statement_car:
  "evaluate no_stringify example_store class_statement
     (bound_context (dicts example_store ! 0) car) = Inr False"
  by (simp add: class_statement_def example_store_def bound_context_def resolve_def
      operand_name_def operand_operations_def DEFAULT_OPERAND_NAME_def apply_operation_def
      compare_values_def car_def)

lemma size_statement_car:
  "evaluate no_stringify example_store size_statement
     (bound_context (dicts example_store ! 0) car) = Inr False"
  by (simp add: size_statement_def example_store_def bound_context_def resolve_def
      operand_name_def operand_operations_def DEFAULT_OPERAND_NAME_def apply_operation_def
      compare_values_def compare_numbers_def car_def box_area_def)

lemma example_person:
  "evaluate no_stringify example_store example_statement
     (bound_context (dicts example_store ! 0) person) = Inr True"
  by (simp add: example_statement_def class_statement_person size_statement_person)

lemma example_car:
  "evaluate no_stringify example_store example_statement
     (bound_context (dicts example_store ! 0) car) = Inr False"
  by (simp add: example_statement_def class_statement_car size_statement_car)

subsection \<open>A missing operand name makes evaluation fail\<close>

lemma resolve_missing:
  "ctx (operand_name operand) = None \<Longrightarrow> isl (resolve ss h operand ctx)"
  by (simp add: resolve_def)

lemma evaluate_missing:
  "operand \<in> set (statement_operands S) \<Longrightarrow> ctx (operand_name operand) = None
     \<Longrightarrow> isl (evaluate ss h S ctx)"
  "operand \<in> set (concat (map statement_operands Ss)) \<Longrightarrow> ctx (operand_name operand) = None
     \<Longrightarrow> isl (evaluate_all ss h Ss ctx)"
proof (induction ss h S ctx and ss h Ss ctx rule: evaluate_evaluate_all.induct)
  case (1 ss h left comparator right ctx)
  then have "isl (resolve ss h left ctx) \<or> isl (resolve ss h right ctx)"
    by (auto intro: resolve_missing)
  then show ?case by (auto split: sum.splits)
next
  case (2 ss h operator statements ctx)
  then have "isl (evaluate_all ss h statements ctx)" by simp
  then show ?case by (auto split: sum.splits)
next
  case (3 ss h ctx)
  then show ?case by simp
next
  case (4 ss h statement rest ctx)
  from "4.prems" consider "operand \<in> set (statement_operands statement)"
    | "operand \<in> set (concat (map statement_operands rest))"
    by auto
  then show ?case
  proof cases
    case 1
    then have "isl (evaluate ss h statement ctx)" using "4.prems"(2) by (rule "4.IH"(1))
    then show ?thesis by (auto split: sum.splits)
  next
    case 2
    show ?thesis
    proof (cases "evaluate ss h statement ctx")
      case (Inl e)
      then show ?thesis by simp
    next
      case (Inr b)
      have "isl (evaluate_all ss h rest ctx)" using Inr 2 "4.prems"(2) by (rule "4.IH"(2))
      then show ?thesis using Inr by (auto split: sum.splits)
    qed
  qed
qed

lemma bound_context_other:
  "n \<noteq> DEFAULT_OPERAND_NAME \<Longrightarrow> bound_context gp d n = gp n"
  by (simp add: bound_context_def)

subsection \<open>The registry of extractors\<close>

lemma registered_extract:
  "\<exists>extractor. map_of PROPERTIES_EXTRACTORS (Property p) = Some extractor \<and>
     extractor detections =
       (if carries detections p then Inr (map (column_entry p) (rows detections))
        else Inl (missing_column p))"
  by (cases p) (auto simp: PROPERTIES_EXTRACTORS_def tolist_def)

lemma unregistered_lookup:
  "map_of PROPERTIES_EXTRACTORS (NotAProperty key) = None"
  by (simp add: PROPERTIES_EXTRACTORS_def)

lemma extract_on_collection:
  assumes "a < length (dets h)"
  shows "extract_detections_property ss h (VDetections a) (Property p) ec =
           (if carries (objects h ! a) p then Inr (map (column_entry p) (dets h ! a))
            else Inl (missing_column p))"
proof -
  have a: "a < length (objects h)" using assms by (simp add: dets_length)
  obtain extractor where e: "map_of PROPERTIES_EXTRACTORS (Property p) = Some extractor"
    "extractor (objects h ! a) =
       (if carries (objects h ! a) p then Inr (map (column_entry p) (rows (objects h ! a)))
        else Inl (missing_column p))"
    using registered_extract [of p "objects h ! a"] by blast
  show ?thesis
    using a by (simp add: extract_detections_property_def lookup_cell_def e dets_nth)
qed

lemma compile_known:
  assumes "list_all known_comparator (statement_comparators statement)"
    and "list_all known_operation (statement_operations statement)"
  shows "compile_statement ss statement = Inr (\<lambda>h context. evaluate ss h statement context)"
  using assms by (simp add: compile_statement_def)

lemma evaluate_unregistered:
  assumes "a < length (dets h)" and "context name = Some (VDetections a)"
  shows "evaluate ss h
           (BinaryStatement (ContextOperand name [ExtractDetectionProperty (NotAProperty key)])
              comparator right) context = Inl (KeyError (NotAProperty key))"
  using assms
  by (simp add: resolve_def operand_name_def operand_operations_def apply_operation_def
      extract_detections_property_def lookup_cell_def unregistered_lookup dets_length)

subsection \<open>Evaluation of the children of a group\<close>

lemma foldr_conj_map: "foldr (\<and>) (map P xs) True = (\<forall>x\<in>set xs. P x)"
  by (induction xs) auto

lemma foldr_disj_map: "foldr (\<or>) (map P xs) False = (\<exists>x\<in>set xs. P x)"
  by (induction xs) auto

lemma evaluate_all_Inr_iff:
  "evaluate_all ss h statements ctx = Inr bs \<longleftrightarrow>
     (\<forall>s\<in>set statements. \<exists>b. evaluate ss h s ctx = Inr b) \<and>
     bs = map (\<lambda>s. evaluate ss h s ctx = Inr True) statements"
proof (induction statements arbitrary: bs)
  case Nil
  then show ?case by auto
next
  case (Cons s statements)
  show ?case
  proof (cases "evaluate ss h s ctx")
    case (Inl e)
    then show ?thesis by auto
  next
    case (Inr b)
    show ?thesis
    proof (cases "evaluate_all ss h statements ctx")
      case (Inl e)
      with Cons.IH have "\<not> (\<forall>s\<in>set statements. \<exists>b. evaluate ss h s ctx = Inr b)"
        by auto
      with Inl Inr show ?thesis by auto
    next
      case (Inr bs')
      with Cons.IH [of bs'] have
        "\<forall>s\<in>set statements. \<exists>b. evaluate ss h s ctx = Inr b"
        "bs' = map (\<lambda>s. evaluate ss h s ctx = Inr True) statements"
        by auto
      with Inr \<open>evaluate ss h s ctx = Inr b\<close> show ?thesis by auto
    qed
  qed
qed

subsection \<open>Empty polygons in the conversion loops\<close>

lemma polygon_prediction_empty:
  "polygon_prediction [] prompt_class_ids prompt_class_names prediction_id = Inl ValueError"
  by (simp add: polygon_prediction_def)

lemma mask_loop_empty_polygon:
  "[] \<in> set polygons \<Longrightarrow>
   isl (mask_loop polygons prompt_class_ids prompt_class_names prediction_id acc)"
proof (induction polygons arbitrary: acc)
  case Nil
  then show ?case by simp
next
  case (Cons polygon rest)
  show ?case
  proof (cases "polygon_prediction polygon prompt_class_ids prompt_class_names prediction_id")
    case (Inl e)
    then show ?thesis by simp
  next
    case (Inr p)
    then have "polygon \<noteq> []" by (auto simp: polygon_prediction_empty)
    with Cons.prems have "[] \<in> set rest" by auto
    then show ?thesis using Inr by (simp add: Cons.IH)
  qed
qed

lemma predictions_loop_empty_polygon:
  "\<exists>pred\<in>set preds. [] \<in> set (pred_mask pred) \<Longrightarrow>
   isl (predictions_loop preds prompt_class_ids prompt_class_names prediction_id acc)"
proof (induction preds arbitrary: prediction_id acc)
  case Nil
  then show ?case by simp
next
  case (Cons pred rest)
  show ?case
  proof (cases "mask_loop (pred_mask pred) prompt_class_ids prompt_class_names prediction_id acc")
    case (Inl e)
    then show ?thesis by simp
  next
    case (Inr acc')
    then have "[] \<notin> set (pred_mask pred)"
      using mask_loop_empty_polygon [of "pred_mask pred" prompt_class_ids prompt_class_names
          prediction_id acc]
      by auto
    with Cons.prems have "\<exists>pred\<in>set rest. [] \<in> set (pred_mask pred)" by auto
    then show ?thesis using Inr by (simp add: Cons.IH)
  qed
qed

lemma isl_case_Inl:
  "isl x \<Longrightarrow> isl (case x of Inl e \<Rightarrow> Inl e | Inr y \<Rightarrow> Inr (f y))"
  by (cases x) simp_all

section \<open>Properties of the filter\<close>

text \<open>
  Claim C1. When no evaluation fails, \<open>filter_detections\<close> returns a new collection
  that holds exactly the detections for which the filtering function is true on
  the caller's mapping with that detection bound under the reserved name; it is
  no longer than the argument and keeps the argument's order.
\<close>

theorem filter_detections_subcollection:
  assumes "a < length (dets h)" and "g < length (dicts h)"
    and "\<forall>d\<in>set (dets h ! a). \<exists>b. filtering_fun (bound_context (dicts h ! g) d) = Inr b"
  shows "\<exists>h'. filter_detections safe_stringify h (VDetections a) filtering_fun g =
            (Inr (VDetections (length (dets h))), h') \<and>
          lookup_cell (dets h') (length (dets h)) =
            Some (filter (\<lambda>d. filtering_fun (bound_context (dicts h ! g) d) = Inr True) (dets h ! a)) \<and>
          length (dets h' ! length (dets h)) \<le> length (dets h ! a) \<and>
          subseq (dets h' ! length (dets h)) (dets h ! a) \<and>
          lookup_cell (objects h') (length (dets h)) =
            Some ((objects h ! a)\<lparr>rows :=
              filter (\<lambda>d. filtering_fun (bound_context (dicts h ! g) d) = Inr True) (dets h ! a)\<rparr>)"
proof -
  let ?keep = "\<lambda>d. filtering_fun (bound_context (dicts h ! g) d) = Inr True"
  let ?R = "filter_detections safe_stringify h (VDetections a) filtering_fun g"
  have ev: "evaluations filtering_fun (dicts h ! g) (dets h ! a) = Inr (map ?keep (dets h ! a))"
    using assms(3) by (rule evaluations_Inr)
  have res: "fst ?R = Inr (VDetections (length (dets h)))"
    using assms(1,2) ev by (rule filter_detections_ok(1))
  have cells: "dets (snd ?R) = dets h @ [filter ?keep (dets h ! a)]"
    using filter_detections_ok(2) [OF assms(1,2) ev] by (simp add: mask_select_map)
  have "?R = (Inr (VDetections (length (dets h))), snd ?R)"
    using res by (simp add: prod_eq_iff)
  moreover have "lookup_cell (dets (snd ?R)) (length (dets h)) = Some (filter ?keep (dets h ! a))"
    by (simp add: cells lookup_cell_def)
  moreover have "length (dets (snd ?R) ! length (dets h)) \<le> length (dets h ! a)"
    by (simp add: cells)
  moreover have "subseq (dets (snd ?R) ! length (dets h)) (dets h ! a)"
    by (simp add: cells)
  moreover have "lookup_cell (objects (snd ?R)) (length (dets h)) =
      Some ((objects h ! a)\<lparr>rows := filter ?keep (dets h ! a)\<rparr>)"
    using filter_detections_ok(5) [OF assms(1,2) ev]
    by (simp add: lookup_cell_def dets_length getitem_mask_def mask_select_map
        dets_nth [symmetric] assms(1) [unfolded dets_length])
  ultimately show ?thesis by blast
qed

theorem filter_detections_subcollection_witness:
  "(0::nat) < length (dets example_store) \<and> (0::nat) < length (dicts example_store) \<and>
   dets example_store ! 0 = [person, car] \<and>
   evaluate no_stringify example_store example_statement
     (bound_context (dicts example_store ! 0) person) = Inr True \<and>
   evaluate no_stringify example_store example_statement
     (bound_context (dicts example_store ! 0) car) = Inr False \<and>
   (\<exists>h'. filter_detections no_stringify example_store (VDetections 0)
            (evaluate no_stringify example_store example_statement) 0 =
            (Inr (VDetections 2), h') \<and>
          lookup_cell (dets h') 2 = Some [person])"
proof -
  have a: "(0::nat) < length (dets example_store)" by (simp add: example_store_def dets_def)
  have g: "(0::nat) < length (dicts example_store)" by (simp add: example_store_def dets_def)
  have ds: "dets example_store ! 0 = [person, car]" by (simp add: example_store_def dets_def)
  have ev: "\<forall>d\<in>set (dets example_store ! 0). \<exists>b.
      evaluate no_stringify example_store example_statement
        (bound_context (dicts example_store ! 0) d) = Inr b"
    by (auto simp: ds example_person example_car)
  have len: "length (dets example_store) = 2" by (simp add: example_store_def dets_def)
  have "\<exists>h'. filter_detections no_stringify example_store (VDetections 0)
            (evaluate no_stringify example_store example_statement) 0 =
            (Inr (VDetections 2), h') \<and>
          lookup_cell (dets h') 2 = Some [person]"
    using filter_detections_subcollection [OF a g ev, of no_stringify]
    by (auto simp: ds len example_person example_car)
  with a g ds example_person example_car show ?thesis by blast
qed

text \<open>
  Claim C2. A call of \<open>filter_detections\<close> leaves the caller's parameter mapping
  and the source collection as they were, as it leaves every object that existed
  before the call. Its outcome is that of applying the filtering function to each
  detection in order, each time on the caller's mapping with that one detection
  bound under the reserved name: a function that agrees with the filtering
  function on these contexts gives the same outcome, so no binding of one element
  reaches the evaluation of another.
\<close>

theorem filter_detections_frame:
  assumes "a < length (dets h)" and "g < length (dicts h)"
  shows "dicts (snd (filter_detections safe_stringify h (VDetections a) filtering_fun g)) ! g
           = dicts h ! g \<and>
         take (length (dicts h))
           (dicts (snd (filter_detections safe_stringify h (VDetections a) filtering_fun g)))
           = dicts h \<and>
         dets (snd (filter_detections safe_stringify h (VDetections a) filtering_fun g)) ! a
           = dets h ! a \<and>
         take (length (dets h))
           (dets (snd (filter_detections safe_stringify h (VDetections a) filtering_fun g)))
           = dets h \<and>
         take (length (objects h))
           (objects (snd (filter_detections safe_stringify h (VDetections a) filtering_fun g)))
           = objects h \<and>
         fst (filter_detections safe_stringify h (VDetections a) filtering_fun g) =
           (case evaluations filtering_fun (dicts h ! g) (dets h ! a) of
              Inl e \<Rightarrow> Inl e
            | Inr result \<Rightarrow> Inr (VDetections (length (dets h)))) \<and>
         ((\<forall>d\<in>set (dets h ! a).
             f' (bound_context (dicts h ! g) d) = filtering_fun (bound_context (dicts h ! g) d)) \<longrightarrow>
          fst (filter_detections safe_stringify h (VDetections a) f' g) =
          fst (filter_detections safe_stringify h (VDetections a) filtering_fun g))"
proof -
  let ?R = "\<lambda>f. filter_detections safe_stringify h (VDetections a) f g"
  let ?E = "\<lambda>f. evaluations f (dicts h ! g) (dets h ! a)"
  have fst_eq: "fst (?R f) = (case ?E f of Inl e \<Rightarrow> Inl e | Inr result \<Rightarrow> Inr (VDetections (length (dets h))))"
    for f
  proof (cases "?E f")
    case (Inl e)
    then show ?thesis using filter_detections_err(1) [OF assms Inl] by simp
  next
    case (Inr bs)
    then show ?thesis using filter_detections_ok(1) [OF assms Inr] by simp
  qed
  have dicts_eq: "\<forall>b<length (dicts h). dicts (snd (?R filtering_fun)) ! b = dicts h ! b"
  proof (cases "?E filtering_fun")
    case (Inl e)
    show ?thesis using assms Inl by (rule filter_detections_err(3))
  next
    case (Inr bs)
    show ?thesis using assms Inr by (rule filter_detections_ok(3))
  qed
  have dicts_len: "length (dicts h) \<le> length (dicts (snd (?R filtering_fun)))"
  proof (cases "?E filtering_fun")
    case (Inl e)
    show ?thesis using assms Inl by (rule filter_detections_err(4))
  next
    case (Inr bs)
    show ?thesis using assms Inr by (rule filter_detections_ok(4))
  qed
  have dets_eq: "take (length (dets h)) (dets (snd (?R filtering_fun))) = dets h"
  proof (cases "?E filtering_fun")
    case (Inl e)
    show ?thesis using filter_detections_err(2) [OF assms Inl] by simp
  next
    case (Inr bs)
    show ?thesis using filter_detections_ok(2) [OF assms Inr] by simp
  qed
  have objects_eq: "take (length (objects h)) (objects (snd (?R filtering_fun))) = objects h"
  proof (cases "?E filtering_fun")
    case (Inl e)
    show ?thesis using filter_detections_err(5) [OF assms Inl] by simp
  next
    case (Inr bs)
    show ?thesis using filter_detections_ok(5) [OF assms Inr] by simp
  qed
  have 1: "dicts (snd (?R filtering_fun)) ! g = dicts h ! g"
    using dicts_eq assms(2) by simp
  have 2: "take (length (dicts h)) (dicts (snd (?R filtering_fun))) = dicts h"
    using dicts_eq dicts_len by (simp add: list_eq_iff_nth_eq)
  have 3: "dets (snd (?R filtering_fun)) ! a = dets h ! a"
  proof -
    have "take (length (dets h)) (dets (snd (?R filtering_fun))) ! a = dets (snd (?R filtering_fun)) ! a"
      using assms(1) by simp
    then show ?thesis by (simp add: dets_eq)
  qed
  have 5: "fst (?R f') = fst (?R filtering_fun)"
    if "\<forall>d\<in>set (dets h ! a).
          f' (bound_context (dicts h ! g) d) = filtering_fun (bound_context (dicts h ! g) d)"
  proof -
    have "?E f' = ?E filtering_fun" using that by (rule evaluations_cong)
    then show ?thesis by (simp add: fst_eq)
  qed
  show ?thesis using 1 2 3 dets_eq objects_eq fst_eq [of filtering_fun] 5 by blast
qed

theorem filter_detections_frame_witness:
  "(0::nat) < length (dets example_store) \<and> (0::nat) < length (dicts example_store) \<and>
   dicts (snd (filter_detections no_stringify example_store (VDetections 0)
           (evaluate no_stringify example_store example_statement) 0)) ! 0
     = dicts example_store ! 0 \<and>
   dets (snd (filter_detections no_stringify example_store (VDetections 0)
           (evaluate no_stringify example_store example_statement) 0)) ! 0
     = [person, car] \<and>
   fst (filter_detections no_stringify example_store (VDetections 0)
           (evaluate no_stringify example_store example_statement) 0) = Inr (VDetections 2)"
proof -
  have a: "(0::nat) < length (dets example_store)" by (simp add: example_store_def dets_def)
  have g: "(0::nat) < length (dicts example_store)" by (simp add: example_store_def dets_def)
  have ds: "dets example_store ! 0 = [person, car]" by (simp add: example_store_def dets_def)
  have len: "length (dets example_store) = 2" by (simp add: example_store_def dets_def)
  show ?thesis
    using filter_detections_frame [OF a g, of no_stringify
        "evaluate no_stringify example_store example_statement"
        "evaluate no_stringify example_store example_statement"] a g
    by (simp add: ds len example_person example_car)
qed

text \<open>
  Claim C7, as amended. If the filtering function fails on some detection of the
  collection, \<open>filter_detections\<close> raises the error of such a detection and creates
  no collection. That is the case when the collection is not empty and the
  statement has an operand whose name is missing from the global context. On an
  empty collection the filtering function is never called and the call returns a
  new empty collection.
\<close>

theorem filter_detections_failure:
  assumes "a < length (dets h)" and "g < length (dicts h)"
  shows "((\<exists>d\<in>set (dets h ! a). isl (filtering_fun (bound_context (dicts h ! g) d))) \<longrightarrow>
           (\<exists>e. fst (filter_detections safe_stringify h (VDetections a) filtering_fun g) = Inl e \<and>
                (\<exists>d\<in>set (dets h ! a). filtering_fun (bound_context (dicts h ! g) d) = Inl e)) \<and>
           dets (snd (filter_detections safe_stringify h (VDetections a) filtering_fun g)) = dets h \<and>
           objects (snd (filter_detections safe_stringify h (VDetections a) filtering_fun g)) =
             objects h) \<and>
         (dets h ! a \<noteq> [] \<and> operand \<in> set (statement_operands S) \<and>
          operand_name operand \<noteq> DEFAULT_OPERAND_NAME \<and>
          (dicts h ! g) (operand_name operand) = None \<longrightarrow>
           isl (fst (filter_detections safe_stringify h (VDetections a) (evaluate ss' h' S) g)) \<and>
           dets (snd (filter_detections safe_stringify h (VDetections a) (evaluate ss' h' S) g)) = dets h) \<and>
         (dets h ! a = [] \<longrightarrow>
           fst (filter_detections safe_stringify h (VDetections a) filtering_fun g) =
             Inr (VDetections (length (dets h))) \<and>
           dets (snd (filter_detections safe_stringify h (VDetections a) filtering_fun g)) =
             dets h @ [[]])"
proof -
  let ?gp = "dicts h ! g" and ?ds = "dets h ! a"
  let ?R = "\<lambda>f. filter_detections safe_stringify h (VDetections a) f g"
  have fails: "(\<exists>e. fst (?R f) = Inl e \<and> (\<exists>d\<in>set ?ds. f (bound_context ?gp d) = Inl e)) \<and>
      dets (snd (?R f)) = dets h \<and> objects (snd (?R f)) = objects h"
    if "\<exists>d\<in>set ?ds. isl (f (bound_context ?gp d))" for f
  proof -
    from evaluations_Inl [OF that] obtain e where
      e: "evaluations f ?gp ?ds = Inl e" "\<exists>d\<in>set ?ds. f (bound_context ?gp d) = Inl e"
      by blast
    have "fst (?R f) = Inl e" using assms e(1) by (rule filter_detections_err(1))
    moreover have "dets (snd (?R f)) = dets h" using assms e(1) by (rule filter_detections_err(2))
    moreover have "objects (snd (?R f)) = objects h"
      using assms e(1) by (rule filter_detections_err(5))
    ultimately show ?thesis using e(2) by blast
  qed
  have missing: "isl (fst (?R (evaluate ss' h' S))) \<and> dets (snd (?R (evaluate ss' h' S))) = dets h"
    if "?ds \<noteq> []" "operand \<in> set (statement_operands S)"
      "operand_name operand \<noteq> DEFAULT_OPERAND_NAME" "?gp (operand_name operand) = None"
  proof -
    from that(1) obtain d where d: "d \<in> set ?ds" by (cases ?ds) auto
    have "bound_context ?gp d (operand_name operand) = None"
      using that(3,4) by (simp add: bound_context_other)
    with that(2) have "isl (evaluate ss' h' S (bound_context ?gp d))"
      by (rule evaluate_missing(1))
    with d have "\<exists>d\<in>set ?ds. isl (evaluate ss' h' S (bound_context ?gp d))" by blast
    from fails [OF this] show ?thesis by auto
  qed
  have empty: "fst (?R filtering_fun) = Inr (VDetections (length (dets h))) \<and>
      dets (snd (?R filtering_fun)) = dets h @ [[]]"
    if "?ds = []"
  proof -
    have ev: "evaluations filtering_fun ?gp ?ds = Inr []" by (simp add: that)
    show ?thesis
      using filter_detections_ok(1,2) [OF assms ev] by (simp add: that mask_select_def)
  qed
  show ?thesis using fails [of filtering_fun] missing empty by blast
qed

text \<open>
  Claim C7 as stated fails on an empty collection: the statement of the example
  refers to \<open>classes\<close>, the global context is empty, and the call returns a new
  empty collection without raising.
\<close>

theorem filter_detections_missing_name_counterexample:
  "ContextOperand ''classes'' [] \<in> set (statement_operands example_statement) \<and>
   (dicts example_store ! 1) ''classes'' = None \<and>
   dets example_store ! 1 = [] \<and>
   fst (filter_detections no_stringify example_store (VDetections 1)
         (evaluate no_stringify example_store example_statement) 1) = Inr (VDetections 2) \<and>
   dets (snd (filter_detections no_stringify example_store (VDetections 1)
         (evaluate no_stringify example_store example_statement) 1)) ! 2 = []"
  by (simp add: example_statement_def class_statement_def example_store_def filter_detections_def
      lookup_cell_def alloc_dets_def getitem_mask_def mask_select_def dets_def)

theorem filter_detections_failure_witness:
  "(0::nat) < length (dets example_store) \<and> (1::nat) < length (dicts example_store) \<and>
   dets example_store ! 0 \<noteq> [] \<and>
   ContextOperand ''classes'' [] \<in> set (statement_operands example_statement) \<and>
   operand_name (ContextOperand ''classes'' []) \<noteq> DEFAULT_OPERAND_NAME \<and>
   (dicts example_store ! 1) (operand_name (ContextOperand ''classes'' [])) = None \<and>
   isl (fst (filter_detections no_stringify example_store (VDetections 0)
          (evaluate no_stringify example_store example_statement) 1)) \<and>
   dets (snd (filter_detections no_stringify example_store (VDetections 0)
          (evaluate no_stringify example_store example_statement) 1)) = dets example_store"
proof -
  have a: "(0::nat) < length (dets example_store)" by (simp add: example_store_def dets_def)
  have g: "(1::nat) < length (dicts example_store)" by (simp add: example_store_def dets_def)
  have 1: "dets example_store ! 0 \<noteq> []" by (simp add: example_store_def dets_def)
  have 2: "ContextOperand ''classes'' [] \<in> set (statement_operands example_statement)"
    by (simp add: example_statement_def class_statement_def)
  have 3: "operand_name (ContextOperand ''classes'' []) \<noteq> DEFAULT_OPERAND_NAME"
    by (simp add: operand_name_def DEFAULT_OPERAND_NAME_def)
  have 4: "(dicts example_store ! 1) (operand_name (ContextOperand ''classes'' [])) = None"
    by (simp add: example_store_def dets_def)
  show ?thesis
    using filter_detections_failure [OF a g, where operand = "ContextOperand ''classes'' []"
        and S = example_statement and safe_stringify = no_stringify and ss' = no_stringify
        and h' = example_store] a g 1 2 3 4
    by blast
qed

section \<open>Rejection of values that are no collection\<close>

text \<open>
  Claim C3. On a value that is no \<open>sv.Detections\<close> object, property extraction,
  filter, offset and shift raise \<open>InvalidInputTypeError\<close>; the message holds the
  rendering of the value by \<open>safe_stringify\<close> and its type. The store is
  returned as it was, so no copy was made; the filtering function and the
  parameter mapping are not consulted.
\<close>

theorem non_collection_rejected:
  assumes "as_Detections v = None"
  shows "extract_detections_property safe_stringify h v property_name execution_context =
           Inl (InvalidInputTypeError
             (''Executing extract_detections_property(...) in context '' @ execution_context @
              '', expected sv.Detections object as value, got '' @ safe_stringify v @
              '' of type '' @ type_str v)
             (''step_execution | roboflow_query_language_evaluation | '' @ execution_context)) \<and>
         filter_detections safe_stringify h v filtering_fun global_parameters =
           (Inl (InvalidInputTypeError
             (''Executing filter_detections(...), expected sv.Detections object as value, got '' @
              safe_stringify v @ '' of type '' @ type_str v)
             ''step_execution | roboflow_query_language_evaluation''), h) \<and>
         offset_detections safe_stringify h v offset_x offset_y =
           (Inl (InvalidInputTypeError
             (''Executing offset_detections(...), expected sv.Detections object as value, got '' @
              safe_stringify v @ '' of type '' @ type_str v)
             ''step_execution | roboflow_query_language_evaluation''), h) \<and>
         shift_detections safe_stringify h v shift_x shift_y =
           (Inl (InvalidInputTypeError
             (''Executing shift_detections(...), expected sv.Detections object as value, got '' @
              safe_stringify v @ '' of type '' @ type_str v)
             ''step_execution | roboflow_query_language_evaluation''), h)"
proof (intro conjI)
  show "extract_detections_property safe_stringify h v property_name execution_context =
           Inl (InvalidInputTypeError
             (''Executing extract_detections_property(...) in context '' @ execution_context @
              '', expected sv.Detections object as value, got '' @ safe_stringify v @
              '' of type '' @ type_str v)
             (''step_execution | roboflow_query_language_evaluation | '' @ execution_context))"
    using assms by (simp add: extract_detections_property_def)
  show "filter_detections safe_stringify h v filtering_fun global_parameters =
           (Inl (InvalidInputTypeError
             (''Executing filter_detections(...), expected sv.Detections object as value, got '' @
              safe_stringify v @ '' of type '' @ type_str v)
             ''step_execution | roboflow_query_language_evaluation''), h)"
    using assms by (simp add: filter_detections_def)
  show "offset_detections safe_stringify h v offset_x offset_y =
           (Inl (InvalidInputTypeError
             (''Executing offset_detections(...), expected sv.Detections object as value, got '' @
              safe_stringify v @ '' of type '' @ type_str v)
             ''step_execution | roboflow_query_language_evaluation''), h)"
    using assms by (simp add: offset_detections_def)
  show "shift_detections safe_stringify h v shift_x shift_y =
           (Inl (InvalidInputTypeError
             (''Executing shift_detections(...), expected sv.Detections object as value, got '' @
              safe_stringify v @ '' of type '' @ type_str v)
             ''step_execution | roboflow_query_language_evaluation''), h)"
    using assms by (simp add: shift_detections_def)
qed

theorem non_collection_rejected_witness:
  "as_Detections (VInt 5) = None \<and>
   filter_detections no_stringify example_store (VInt 5)
     (evaluate no_stringify example_store example_statement) 0 =
     (Inl (InvalidInputTypeError
        ''Executing filter_detections(...), expected sv.Detections object as value, got <not stringify-able value> of type <class 'int'>''
        ''step_execution | roboflow_query_language_evaluation''), example_store) \<and>
   fst (offset_detections no_stringify example_store (VStr ''boxes'') 10 20) =
     Inl (InvalidInputTypeError
        ''Executing offset_detections(...), expected sv.Detections object as value, got <not stringify-able value> of type <class 'str'>''
        ''step_execution | roboflow_query_language_evaluation'')"
proof -
  have i: "as_Detections (VInt 5) = None" by simp
  have s: "as_Detections (VStr ''boxes'') = None" by simp
  show ?thesis
    using non_collection_rejected [OF i, of no_stringify example_store]
      non_collection_rejected [OF s, of no_stringify example_store]
    by (simp add: no_stringify_def)
qed

section \<open>Properties of the transforms\<close>

text \<open>
  Claim C4. \<open>offset_detections\<close> returns a new collection in which every box has
  \<open>x_min\<close> and \<open>y_min\<close> lowered and \<open>x_max\<close> and \<open>y_max\<close> raised by half the
  offsets; every object that existed before the call, the argument among them, is
  unchanged. The witness is the example of the specification: offsets 10 and 20
  turn the box (100, 100, 200, 200) into (95, 90, 205, 210).
\<close>

theorem offset_detections_copy:
  assumes "a < length (dets h)"
  shows "\<exists>h'. offset_detections safe_stringify h (VDetections a) offset_x offset_y =
            (Inr (VDetections (length (dets h))), h') \<and>
          lookup_cell (dets h') (length (dets h)) =
            Some (map (\<lambda>d. d\<lparr>x_min := x_min d - real_of_int offset_x / 2,
                              y_min := y_min d - real_of_int offset_y / 2,
                              x_max := x_max d + real_of_int offset_x / 2,
                              y_max := y_max d + real_of_int offset_y / 2\<rparr>) (dets h ! a)) \<and>
          take (length (dets h)) (dets h') = dets h \<and>
          dets h' ! a = dets h ! a \<and>
          dicts h' = dicts h \<and>
          take (length (objects h)) (objects h') = objects h \<and>
          has_confidence (objects h' ! length (dets h)) = has_confidence (objects h ! a) \<and>
          has_class_id (objects h' ! length (dets h)) = has_class_id (objects h ! a) \<and>
          has_class_name (objects h' ! length (dets h)) = has_class_name (objects h ! a)"
proof -
  let ?r = "(- real_of_int offset_x / 2, - real_of_int offset_y / 2,
             real_of_int offset_x / 2, real_of_int offset_y / 2)"
  let ?new = "(objects h ! a)\<lparr>rows := map (add_row ?r) (dets h ! a)\<rparr>"
  let ?h' = "h\<lparr>objects := objects h @ [?new]\<rparr>"
  have a: "a < length (objects h)" using assms by (simp add: dets_length)
  have call: "offset_detections safe_stringify h (VDetections a) offset_x offset_y =
      (Inr (VDetections (length (dets h))), ?h')"
    using assms by (rule transform_unfold(1))
  have cells: "dets ?h' = dets h @ [map (add_row ?r) (dets h ! a)]"
    by (simp add: dets_def)
  have 1: "lookup_cell (dets ?h') (length (dets h)) =
            Some (map (\<lambda>d. d\<lparr>x_min := x_min d - real_of_int offset_x / 2,
                              y_min := y_min d - real_of_int offset_y / 2,
                              x_max := x_max d + real_of_int offset_x / 2,
                              y_max := y_max d + real_of_int offset_y / 2\<rparr>) (dets h ! a))"
    unfolding cells by (simp add: lookup_cell_def add_row_def)
  have 2: "take (length (dets h)) (dets ?h') = dets h"
    unfolding cells by simp
  have 3: "dets ?h' ! a = dets h ! a"
    unfolding cells using assms by (simp add: nth_append)
  have 4: "dicts ?h' = dicts h" by simp
  have 5: "take (length (objects h)) (objects ?h') = objects h" by simp
  have 6: "objects ?h' ! length (dets h) = ?new"
    by (simp add: dets_length)
  have 7: "has_confidence (objects ?h' ! length (dets h)) = has_confidence (objects h ! a)"
    "has_class_id (objects ?h' ! length (dets h)) = has_class_id (objects h ! a)"
    "has_class_name (objects ?h' ! length (dets h)) = has_class_name (objects h ! a)"
    unfolding 6 by simp_all
  show ?thesis using call 1 2 3 4 5 7 by blast
qed

theorem offset_detections_copy_witness:
  "(0::nat) < length (dets example_store) \<and>
   fst (offset_detections no_stringify example_store (VDetections 0) 10 20) = Inr (VDetections 2) \<and>
   map (\<lambda>d. (x_min d, y_min d, x_max d, y_max d))
     (dets (snd (offset_detections no_stringify example_store (VDetections 0) 10 20)) ! 2) =
     [(95, 90, 205, 210), (- 5, - 10, 15, 15)] \<and>
   map (\<lambda>d. (x_min d, y_min d, x_max d, y_max d))
     (dets (snd (offset_detections no_stringify example_store (VDetections 0) 10 20)) ! 0) =
     [(100, 100, 200, 200), (0, 0, 10, 5)]"
proof -
  have a: "(0::nat) < length (dets example_store)" by (simp add: example_store_def dets_def)
  from offset_detections_copy [OF a, of no_stringify 10 20] obtain h' where
    h': "offset_detections no_stringify example_store (VDetections 0) 10 20 =
           (Inr (VDetections (length (dets example_store))), h')"
        "lookup_cell (dets h') (length (dets example_store)) =
            Some (map (\<lambda>d. d\<lparr>x_min := x_min d - real_of_int 10 / 2,
                              y_min := y_min d - real_of_int 20 / 2,
                              x_max := x_max d + real_of_int 10 / 2,
                              y_max := y_max d + real_of_int 20 / 2\<rparr>) (dets example_store ! 0))"
        "dets h' ! 0 = dets example_store ! 0"
    by blast
  have len: "length (dets example_store) = 2" by (simp add: example_store_def dets_def)
  have ds: "dets example_store ! 0 = [person, car]" by (simp add: example_store_def dets_def)
  have new: "dets h' ! 2 = map (\<lambda>d. d\<lparr>x_min := x_min d - 5, y_min := y_min d - 10,
                              x_max := x_max d + 5, y_max := y_max d + 10\<rparr>) [person, car]"
    using h'(2) by (simp add: len ds lookup_cell_def split: if_splits)
  show ?thesis
    using a by (simp add: h' len new ds person_def car_def)
qed

text \<open>
  Claim C9. The transforms do not re-establish the order of the corners: there is
  a collection of boxes with ordered corners and a negative offset for which
  \<open>offset_detections\<close> returns a box with \<open>x_max < x_min\<close>, and
  \<open>shift_detections\<close> returns such a box when it is given one.
\<close>

theorem transforms_do_not_revalidate:
  "(\<exists>h a offset_x offset_y h'.
      a < length (dets h) \<and> list_all valid_box (dets h ! a) \<and> offset_x < 0 \<and>
      offset_detections safe_stringify h (VDetections a) offset_x offset_y =
        (Inr (VDetections (length (dets h))), h') \<and>
      (\<exists>d\<in>set (dets h' ! length (dets h)). x_max d < x_min d)) \<and>
   (\<exists>h a shift_x shift_y h'.
      a < length (dets h) \<and> (\<exists>d\<in>set (dets h ! a). x_max d < x_min d) \<and>
      shift_detections safe_stringify h (VDetections a) shift_x shift_y =
        (Inr (VDetections (length (dets h))), h') \<and>
      (\<exists>d\<in>set (dets h' ! length (dets h)). x_max d < x_min d))"
proof (intro conjI)
  let ?one = "\<lambda>d. \<lparr>rows = [d], has_confidence = True, has_class_id = True, has_class_name = True\<rparr>"
  let ?h = "\<lparr>objects = [?one person], dicts = []\<rparr>"
  let ?h' = "\<lparr>objects = [?one person, ?one (person\<lparr>x_min := 250, x_max := 50\<rparr>)], dicts = []\<rparr>"
  have a: "(0::nat) < length (dets ?h)" by (simp add: dets_def)
  have "offset_detections safe_stringify ?h (VDetections 0) (- 300) 0 =
      (Inr (VDetections (length (dets ?h))), ?h')"
    using transform_unfold(1) [OF a, where ss = safe_stringify and offset_x = "- 300"
        and offset_y = 0]
    by (simp add: add_row_def person_def dets_def)
  moreover have "list_all valid_box (dets ?h ! 0)"
    by (simp add: valid_box_def person_def dets_def)
  moreover have "\<exists>d\<in>set (dets ?h' ! length (dets ?h)). x_max d < x_min d"
    by (simp add: dets_def)
  ultimately show "\<exists>h a offset_x offset_y h'.
      a < length (dets h) \<and> list_all valid_box (dets h ! a) \<and> offset_x < 0 \<and>
      offset_detections safe_stringify h (VDetections a) offset_x offset_y =
        (Inr (VDetections (length (dets h))), h') \<and>
      (\<exists>d\<in>set (dets h' ! length (dets h)). x_max d < x_min d)"
    using a by (intro exI [of _ ?h] exI [of _ "0::nat"] exI [of _ "- 300::int"] exI [of _ "0::int"] exI [of _ ?h']) simp
next
  let ?bad = "person\<lparr>x_min := 250, x_max := 50\<rparr>"
  let ?one = "\<lambda>d. \<lparr>rows = [d], has_confidence = True, has_class_id = True, has_class_name = True\<rparr>"
  let ?h = "\<lparr>objects = [?one ?bad], dicts = []\<rparr>"
  let ?h' = "\<lparr>objects = [?one ?bad,
                ?one (?bad\<lparr>x_min := 257, y_min := 107, x_max := 57, y_max := 207\<rparr>)], dicts = []\<rparr>"
  have a: "(0::nat) < length (dets ?h)" by (simp add: dets_def)
  have "shift_detections safe_stringify ?h (VDetections 0) 7 7 =
      (Inr (VDetections (length (dets ?h))), ?h')"
    using transform_unfold(2) [OF a, where ss = safe_stringify and shift_x = 7 and shift_y = 7]
    by (simp add: add_row_def person_def dets_def array_of_integers_def)
  moreover have "\<exists>d\<in>set (dets ?h ! 0). x_max d < x_min d" by (simp add: dets_def)
  moreover have "\<exists>d\<in>set (dets ?h' ! length (dets ?h)). x_max d < x_min d"
    by (simp add: dets_def)
  ultimately show "\<exists>h a shift_x shift_y h'.
      a < length (dets h) \<and> (\<exists>d\<in>set (dets h ! a). x_max d < x_min d) \<and>
      shift_detections safe_stringify h (VDetections a) shift_x shift_y =
        (Inr (VDetections (length (dets h))), h') \<and>
      (\<exists>d\<in>set (dets h' ! length (dets h)). x_max d < x_min d)"
    using a by (intro exI [of _ ?h] exI [of _ "0::nat"] exI [of _ "7::int"] exI [of _ "7::int"] exI [of _ ?h']) simp
qed

section \<open>Property extraction\<close>

text \<open>
  Claim C10, as amended. \<open>extract_detections_property\<close> tests the type of its
  argument first and asks the registry for the property afterwards, when it is
  called. The keys of the registry are the eight members of
  \<open>DetectionsProperty\<close>, and for each of them the lookup itself succeeds. On a
  collection that carries the column of the property (the coordinates and the
  area always are carried) the result holds one value per detection, the value at
  a position being the entry of the detection at that position. On a collection
  that lacks the column the extractor raises: \<open>AttributeError\<close> for the
  confidence and the class id, \<open>KeyError\<close> of the key \<open>class_name\<close> for the
  class name. On a collection, a key outside the registry fails with \<open>KeyError\<close>
  of that key, not with \<open>InvalidInputTypeError\<close>; a statement whose operand
  extracts such a key compiles, and the failure shows when the compiled statement
  is evaluated on a collection.
\<close>

theorem extract_detections_property_lookup:
  "set (map fst PROPERTIES_EXTRACTORS) =
     Property ` {CONFIDENCE, CLASS_NAME, CLASS_ID, X_MIN, Y_MIN, X_MAX, Y_MAX, SIZE} \<and>
   (as_Detections v = None \<longrightarrow>
     (\<exists>message ctx. extract_detections_property safe_stringify h v property_name execution_context =
        Inl (InvalidInputTypeError message ctx))) \<and>
   map_of PROPERTIES_EXTRACTORS (Property p) \<noteq> None \<and>
   (a < length (dets h) \<and> carries (objects h ! a) p \<longrightarrow>
     extract_detections_property safe_stringify h (VDetections a) (Property p) execution_context =
       Inr (map (column_entry p) (dets h ! a)) \<and>
     length (map (column_entry p) (dets h ! a)) = length (dets h ! a) \<and>
     (\<forall>i<length (dets h ! a).
        map (column_entry p) (dets h ! a) ! i = column_entry p (dets h ! a ! i))) \<and>
   (a < length (dets h) \<and> \<not> carries (objects h ! a) p \<longrightarrow>
     extract_detections_property safe_stringify h (VDetections a) (Property p) execution_context =
       Inl (missing_column p)) \<and>
   (a < length (dets h) \<and>
    property_name \<notin> Property ` {CONFIDENCE, CLASS_NAME, CLASS_ID, X_MIN, Y_MIN, X_MAX, Y_MAX, SIZE} \<longrightarrow>
     extract_detections_property safe_stringify h (VDetections a) property_name execution_context =
       Inl (KeyError property_name)) \<and>
   (a < length (dets h) \<and>
    property_name \<notin> Property ` {CONFIDENCE, CLASS_NAME, CLASS_ID, X_MIN, Y_MIN, X_MAX, Y_MAX, SIZE} \<and>
    parameters name = Some (VDetections a) \<and>
    known_comparator comparator \<and> list_all known_operation (operand_operations right) \<longrightarrow>
     (\<exists>compiled.
        compile_statement safe_stringify
          (BinaryStatement (ContextOperand name [ExtractDetectionProperty property_name])
             comparator right) = Inr compiled \<and>
        compiled h parameters = Inl (KeyError property_name)))"
proof (intro conjI impI)
  show "set (map fst PROPERTIES_EXTRACTORS) =
     Property ` {CONFIDENCE, CLASS_NAME, CLASS_ID, X_MIN, Y_MIN, X_MAX, Y_MAX, SIZE}"
    by (auto simp: PROPERTIES_EXTRACTORS_def)
next
  assume "as_Detections v = None"
  then show "\<exists>message ctx. extract_detections_property safe_stringify h v property_name execution_context =
        Inl (InvalidInputTypeError message ctx)"
    by (simp add: extract_detections_property_def)
next
  show "map_of PROPERTIES_EXTRACTORS (Property p) \<noteq> None"
    using registered_extract [of p undefined] by auto
next
  assume "a < length (dets h) \<and> carries (objects h ! a) p"
  then show "extract_detections_property safe_stringify h (VDetections a) (Property p) execution_context =
       Inr (map (column_entry p) (dets h ! a))"
    by (simp add: extract_on_collection)
next
  show "length (map (column_entry p) (dets h ! a)) = length (dets h ! a)" by simp
next
  show "\<forall>i<length (dets h ! a).
        map (column_entry p) (dets h ! a) ! i = column_entry p (dets h ! a ! i)"
    by simp
next
  assume "a < length (dets h) \<and> \<not> carries (objects h ! a) p"
  then show "extract_detections_property safe_stringify h (VDetections a) (Property p) execution_context =
       Inl (missing_column p)"
    by (simp add: extract_on_collection)
next
  assume A: "a < length (dets h) \<and>
    property_name \<notin> Property ` {CONFIDENCE, CLASS_NAME, CLASS_ID, X_MIN, Y_MIN, X_MAX, Y_MAX, SIZE}"
  have "\<exists>key. property_name = NotAProperty key"
  proof (cases property_name)
    case (Property q)
    with A show ?thesis by (cases q) auto
  next
    case (NotAProperty key)
    then show ?thesis by blast
  qed
  then obtain key where "property_name = NotAProperty key" ..
  with A show "extract_detections_property safe_stringify h (VDetections a) property_name execution_context =
       Inl (KeyError property_name)"
    by (simp add: extract_detections_property_def lookup_cell_def unregistered_lookup dets_length)
next
  let ?statement = "BinaryStatement (ContextOperand name [ExtractDetectionProperty property_name])
             comparator right"
  assume A: "a < length (dets h) \<and>
    property_name \<notin> Property ` {CONFIDENCE, CLASS_NAME, CLASS_ID, X_MIN, Y_MIN, X_MAX, Y_MAX, SIZE} \<and>
    parameters name = Some (VDetections a) \<and>
    known_comparator comparator \<and> list_all known_operation (operand_operations right)"
  have "\<exists>key. property_name = NotAProperty key"
  proof (cases property_name)
    case (Property q)
    with A show ?thesis by (cases q) auto
  next
    case (NotAProperty key)
    then show ?thesis by blast
  qed
  then obtain key where key: "property_name = NotAProperty key" ..
  have "compile_statement safe_stringify ?statement =
      Inr (\<lambda>h context. evaluate safe_stringify h ?statement context)"
    using A by (intro compile_known) (simp_all add: operand_operations_def)
  moreover have "evaluate safe_stringify h ?statement parameters = Inl (KeyError property_name)"
    using A unfolding key by (intro evaluate_unregistered) simp_all
  ultimately show "\<exists>compiled. compile_statement safe_stringify ?statement = Inr compiled \<and>
        compiled h parameters = Inl (KeyError property_name)"
    by simp
qed

text \<open>
  Claim C10 as first stated does not hold: a property of the registry need not
  yield a list. On the empty collection of \<open>sv.Detections.empty()\<close>, which has
  no entry \<open>class_name\<close> in its data, the extraction of the class name raises
  \<open>KeyError\<close>.
\<close>

theorem registered_property_raises_counterexample:
  "Property CLASS_NAME \<in> set (map fst PROPERTIES_EXTRACTORS) \<and>
   (0::nat) < length (dets empty_store) \<and>
   dets empty_store ! 0 = [] \<and>
   extract_detections_property no_stringify empty_store (VDetections 0) (Property CLASS_NAME)
     ''filter'' = Inl (KeyError (NotAProperty ''class_name''))"
  by (simp add: PROPERTIES_EXTRACTORS_def empty_store_def empty_detections_def dets_def
      extract_detections_property_def lookup_cell_def)

theorem extract_detections_property_lookup_witness:
  "as_Detections (VStr ''boxes'') = None \<and>
   (0::nat) < length (dets example_store) \<and>
   carries (objects example_store ! 0) SIZE \<and>
   carries (objects example_store ! 0) CLASS_NAME \<and>
   (0::nat) < length (dets empty_store) \<and>
   \<not> carries (objects empty_store ! 0) CLASS_NAME \<and>
   NotAProperty ''center'' \<notin>
     Property ` {CONFIDENCE, CLASS_NAME, CLASS_ID, X_MIN, Y_MIN, X_MAX, Y_MAX, SIZE} \<and>
   (\<exists>message ctx. extract_detections_property no_stringify example_store (VStr ''boxes'')
        (NotAProperty ''center'') ''filter'' = Inl (InvalidInputTypeError message ctx)) \<and>
   extract_detections_property no_stringify example_store (VDetections 0) (Property SIZE) ''filter'' =
     Inr [VFloat 10000, VFloat 50] \<and>
   extract_detections_property no_stringify example_store (VDetections 0) (Property CLASS_NAME) ''filter'' =
     Inr [VStr ''person'', VStr ''car''] \<and>
   extract_detections_property no_stringify empty_store (VDetections 0) (Property CLASS_NAME) ''filter'' =
     Inl (KeyError (NotAProperty ''class_name'')) \<and>
   extract_detections_property no_stringify example_store (VDetections 0) (NotAProperty ''center'')
     ''filter'' = Inl (KeyError (NotAProperty ''center'')) \<and>
   [''predictions'' \<mapsto> VDetections 0] ''predictions'' = Some (VDetections 0) \<and>
   known_comparator InSequence \<and>
   list_all known_operation (operand_operations (ContextOperand ''classes'' [])) \<and>
   (\<exists>compiled.
      compile_statement no_stringify
        (BinaryStatement
           (ContextOperand ''predictions'' [ExtractDetectionProperty (NotAProperty ''center'')])
           InSequence (ContextOperand ''classes'' [])) = Inr compiled \<and>
      compiled example_store [''predictions'' \<mapsto> VDetections 0] =
        Inl (KeyError (NotAProperty ''center'')))"
proof -
  have v: "as_Detections (VStr ''boxes'') = None" by simp
  have a: "(0::nat) < length (dets example_store)" by (simp add: example_store_def dets_def)
  have c: "carries (objects example_store ! 0) SIZE" "carries (objects example_store ! 0) CLASS_NAME"
    by (simp_all add: example_store_def)
  have a': "(0::nat) < length (dets empty_store)" by (simp add: empty_store_def dets_def)
  have c': "\<not> carries (objects empty_store ! 0) CLASS_NAME"
    by (simp add: empty_store_def empty_detections_def)
  have k: "NotAProperty ''center'' \<notin>
     Property ` {CONFIDENCE, CLASS_NAME, CLASS_ID, X_MIN, Y_MIN, X_MAX, Y_MAX, SIZE}"
    by auto
  have ds: "dets example_store ! 0 = [person, car]" by (simp add: example_store_dets)
  have 1: "extract_detections_property no_stringify example_store (VDetections 0) (Property SIZE)
      ''filter'' = Inr [VFloat 10000, VFloat 50]"
    "\<exists>message ctx. extract_detections_property no_stringify example_store (VStr ''boxes'')
        (NotAProperty ''center'') ''filter'' = Inl (InvalidInputTypeError message ctx)"
    "extract_detections_property no_stringify example_store (VDetections 0) (NotAProperty ''center'')
     ''filter'' = Inl (KeyError (NotAProperty ''center''))"
    using extract_detections_property_lookup [where v = "VStr ''boxes''" and a = 0
        and h = example_store and p = SIZE and property_name = "NotAProperty ''center''"
        and safe_stringify = no_stringify and execution_context = "''filter''"] v a c k
    by (simp_all add: ds person_def car_def box_area_def)
  have 2: "extract_detections_property no_stringify example_store (VDetections 0)
      (Property CLASS_NAME) ''filter'' = Inr [VStr ''person'', VStr ''car'']"
    using extract_detections_property_lookup [where a = 0
        and h = example_store and p = CLASS_NAME
        and safe_stringify = no_stringify and execution_context = "''filter''"] a c
    by (simp add: ds person_def car_def)
  have 3: "extract_detections_property no_stringify empty_store (VDetections 0)
      (Property CLASS_NAME) ''filter'' = Inl (KeyError (NotAProperty ''class_name''))"
    using extract_detections_property_lookup [where a = 0
        and h = empty_store and p = CLASS_NAME
        and safe_stringify = no_stringify and execution_context = "''filter''"] a' c'
    by simp
  have n: "[''predictions'' \<mapsto> VDetections 0] ''predictions'' = Some (VDetections 0)"
    by simp
  have t: "known_comparator InSequence"
    "list_all known_operation (operand_operations (ContextOperand ''classes'' []))"
    by (simp_all add: operand_operations_def)
  have 4: "\<exists>compiled.
      compile_statement no_stringify
        (BinaryStatement
           (ContextOperand ''predictions'' [ExtractDetectionProperty (NotAProperty ''center'')])
           InSequence (ContextOperand ''classes'' [])) = Inr compiled \<and>
      compiled example_store [''predictions'' \<mapsto> VDetections 0] =
        Inl (KeyError (NotAProperty ''center''))"
    using extract_detections_property_lookup [where a = 0 and h = example_store
        and property_name = "NotAProperty ''center''"
        and parameters = "[''predictions'' \<mapsto> VDetections 0]" and name = "''predictions''"
        and comparator = InSequence and right = "ContextOperand ''classes'' []"
        and safe_stringify = no_stringify] a k n t
    by blast
  show ?thesis using v a c a' c' k 1 2 3 n t 4 by blast
qed

section \<open>Statement groups\<close>

text \<open>
  Claim C6, on the evaluator modelled from the specification. An \<open>AND\<close> group
  without children evaluates to true and an \<open>OR\<close> group without children to
  false, in every context. A group with one child evaluates as the child does. When
  every child evaluates to a boolean, an \<open>AND\<close> group is true iff every child
  is true and an \<open>OR\<close> group is true iff some child is; an \<open>AND\<close> group
  evaluates to true exactly when every child does.
\<close>

theorem statement_group_truth_table:
  "evaluate ss h (StatementGroup AND []) ctx = Inr True \<and>
   evaluate ss h (StatementGroup OR []) ctx = Inr False \<and>
   evaluate ss h (StatementGroup AND [s]) ctx = evaluate ss h s ctx \<and>
   evaluate ss h (StatementGroup OR [s]) ctx = evaluate ss h s ctx \<and>
   ((\<forall>s\<in>set statements. \<exists>b. evaluate ss h s ctx = Inr b) \<longrightarrow>
      evaluate ss h (StatementGroup AND statements) ctx =
        Inr (\<forall>s\<in>set statements. evaluate ss h s ctx = Inr True) \<and>
      evaluate ss h (StatementGroup OR statements) ctx =
        Inr (\<exists>s\<in>set statements. evaluate ss h s ctx = Inr True)) \<and>
   (evaluate ss h (StatementGroup AND statements) ctx = Inr True \<longleftrightarrow>
      (\<forall>s\<in>set statements. evaluate ss h s ctx = Inr True))"
proof (intro conjI impI)
  show "evaluate ss h (StatementGroup AND []) ctx = Inr True" by simp
  show "evaluate ss h (StatementGroup OR []) ctx = Inr False" by simp
  show "evaluate ss h (StatementGroup AND [s]) ctx = evaluate ss h s ctx"
    by (simp split: sum.splits)
  show "evaluate ss h (StatementGroup OR [s]) ctx = evaluate ss h s ctx"
    by (simp split: sum.splits)
next
  assume ok: "\<forall>s\<in>set statements. \<exists>b. evaluate ss h s ctx = Inr b"
  then have all: "evaluate_all ss h statements ctx =
      Inr (map (\<lambda>s. evaluate ss h s ctx = Inr True) statements)"
    by (simp add: evaluate_all_Inr_iff)
  show "evaluate ss h (StatementGroup AND statements) ctx =
        Inr (\<forall>s\<in>set statements. evaluate ss h s ctx = Inr True)"
    by (simp add: all foldr_conj_map)
  show "evaluate ss h (StatementGroup OR statements) ctx =
        Inr (\<exists>s\<in>set statements. evaluate ss h s ctx = Inr True)"
    by (simp add: all foldr_disj_map)
next
  show "evaluate ss h (StatementGroup AND statements) ctx = Inr True \<longleftrightarrow>
      (\<forall>s\<in>set statements. evaluate ss h s ctx = Inr True)"
  proof
    assume "evaluate ss h (StatementGroup AND statements) ctx = Inr True"
    then obtain bs where bs: "evaluate_all ss h statements ctx = Inr bs" "foldr (\<and>) bs True"
      by (auto split: sum.splits)
    from bs(1) have "bs = map (\<lambda>s. evaluate ss h s ctx = Inr True) statements"
      by (simp add: evaluate_all_Inr_iff)
    with bs(2) show "\<forall>s\<in>set statements. evaluate ss h s ctx = Inr True"
      by (simp add: foldr_conj_map)
  next
    assume all: "\<forall>s\<in>set statements. evaluate ss h s ctx = Inr True"
    then have "\<forall>s\<in>set statements. \<exists>b. evaluate ss h s ctx = Inr b" by blast
    then have "evaluate_all ss h statements ctx =
        Inr (map (\<lambda>s. evaluate ss h s ctx = Inr True) statements)"
      by (simp add: evaluate_all_Inr_iff)
    then show "evaluate ss h (StatementGroup AND statements) ctx = Inr True"
      using all by (simp add: foldr_conj_map)
  qed
qed

theorem statement_group_truth_table_witness:
  "evaluate no_stringify example_store class_statement
     (bound_context (dicts example_store ! 0) car) = Inr False \<and>
   evaluate no_stringify example_store size_statement
     (bound_context (dicts example_store ! 0) car) = Inr False \<and>
   evaluate no_stringify example_store (StatementGroup AND [class_statement, size_statement])
     (bound_context (dicts example_store ! 0) car) = Inr False \<and>
   evaluate no_stringify example_store (StatementGroup OR [class_statement, size_statement])
     (bound_context (dicts example_store ! 0) car) = Inr False \<and>
   evaluate no_stringify example_store (StatementGroup AND [class_statement, size_statement])
     (bound_context (dicts example_store ! 0) person) = Inr True \<and>
   evaluate no_stringify example_store (StatementGroup OR [class_statement, size_statement])
     (bound_context (dicts example_store ! 0) person) = Inr True"
proof -
  let ?car = "bound_context (dicts example_store ! 0) car"
  let ?person = "bound_context (dicts example_store ! 0) person"
  have c: "\<forall>s\<in>set [class_statement, size_statement].
      \<exists>b. evaluate no_stringify example_store s ?car = Inr b"
    by (auto simp: class_statement_car size_statement_car)
  have p: "\<forall>s\<in>set [class_statement, size_statement].
      \<exists>b. evaluate no_stringify example_store s ?person = Inr b"
    by (auto simp: class_statement_person size_statement_person)
  show ?thesis
    using statement_group_truth_table [where statements = "[class_statement, size_statement]"
        and ss = no_stringify and h = example_store and ctx = ?car] c
      statement_group_truth_table [where statements = "[class_statement, size_statement]"
        and ss = no_stringify and h = example_store and ctx = ?person] p
    by (simp add: class_statement_car size_statement_car class_statement_person
        size_statement_person)
qed

section \<open>Conversion of segmentation masks\<close>

text \<open>
  Claim C8. A polygon without points makes the conversion raise: the loop body
  raises \<open>ValueError\<close> on it, from \<open>np.min\<close> on the empty list of
  coordinates, and a response whose masks hold such a polygon is never converted
  to a result.
\<close>

theorem empty_polygon_raises:
  "polygon_prediction [] prompt_class_ids prompt_class_names prediction_id = Inl ValueError \<and>
   ((\<exists>pred\<in>set sam2_segmentation_predictions. [] \<in> set (pred_mask pred)) \<longrightarrow>
     isl (convert_sam2_segmentation_response_to_inference_instances_seg_response
            sam2_segmentation_predictions image_shape prompt_class_ids prompt_class_names))"
proof (intro conjI impI)
  show "polygon_prediction [] prompt_class_ids prompt_class_names prediction_id = Inl ValueError"
    by (rule polygon_prediction_empty)
next
  assume "\<exists>pred\<in>set sam2_segmentation_predictions. [] \<in> set (pred_mask pred)"
  then have "isl (predictions_loop sam2_segmentation_predictions ids names 0 [])" for ids names
    by (rule predictions_loop_empty_polygon)
  then show "isl (convert_sam2_segmentation_response_to_inference_instances_seg_response
            sam2_segmentation_predictions image_shape prompt_class_ids prompt_class_names)"
    by (cases "length prompt_class_ids = 0")
      (simp_all add: convert_sam2_segmentation_response_to_inference_instances_seg_response_def
        Let_def isl_case_Inl)
qed

theorem empty_polygon_raises_witness:
  "[] \<in> set (pred_mask \<lparr>pred_mask = [[[1, 2], [3, 4]], []]\<rparr>) \<and>
   isl (convert_sam2_segmentation_response_to_inference_instances_seg_response
     [\<lparr>pred_mask = [[[1, 2], [3, 4]], []]\<rparr>] (10, 20) [] []) \<and>
   convert_sam2_segmentation_response_to_inference_instances_seg_response
     [\<lparr>pred_mask = [[[1, 2], [3, 4]], []]\<rparr>] (10, 20) [] [] = Inl ValueError"
proof -
  have e: "\<exists>pred\<in>set [\<lparr>pred_mask = [[[1, 2], [3, 4]], []]\<rparr>]. [] \<in> set (pred_mask pred)"
    by simp
  have raises: "isl (convert_sam2_segmentation_response_to_inference_instances_seg_response
     [\<lparr>pred_mask = [[[1, 2], [3, 4]], []]\<rparr>] (10, 20) [] [])"
    using empty_polygon_raises [where sam2_segmentation_predictions =
        "[\<lparr>pred_mask = [[[1, 2], [3, 4]], []]\<rparr>]" and prompt_class_ids = "[]"
        and prompt_class_names = "[]" and image_shape = "(10, 20)"] e
    by blast
  have name: "str_nat 0 = ''0''" by code_simp
  have "convert_sam2_segmentation_response_to_inference_instances_seg_response
     [\<lparr>pred_mask = [[[1, 2], [3, 4]], []]\<rparr>] (10, 20) [] [] = Inl ValueError"
    by (simp add: convert_sam2_segmentation_response_to_inference_instances_seg_response_def
        name polygon_prediction_def getitem_def)
  with raises show ?thesis by simp
qed

end
